theory Spec2Isabelle
  imports Complex_Main "HOL-Library.Multiset"
begin

section \<open>Data model\<close>

text \<open>
  The tables of the migration \<^verbatim>\<open>20250901180005\<close>. UUIDs are modelled as natural numbers
  and \<^verbatim>\<open>TIMESTAMP WITH TIME ZONE\<close> values as natural numbers (an instant on a time line).
  \<^verbatim>\<open>DECIMAL\<close> columns and finite JavaScript numbers are real numbers (every binary64
  value and every decimal is one). Columns that no request
  handler and no dashboard query reads or writes (the latitude/longitude pairs, the
  surrogate \<^verbatim>\<open>id\<close> of \<^verbatim>\<open>driver_profiles\<close>) are left out.
\<close>

type_synonym uuid = nat
type_synonym timestamptz = nat

datatype vehicle_type = Auto | Car | Bike

datatype ride_status = Pending | Accepted | In_progress | Completed | Cancelled

section \<open>Fare estimate of create-ride\<close>

text \<open>
  \<^verbatim>\<open>const baseFare = vehicle_type === 'bike' ? 30 : vehicle_type === 'auto' ? 50 : 80;\<close>
  The field comes out of \<^verbatim>\<open>req.json()\<close> unchecked: \<open>None\<close> is a field that is absent
  (or null), \<open>Some v\<close> any string.
\<close>

definition baseFare :: "string option \<Rightarrow> int" where
  "baseFare vehicle_type =
     (if vehicle_type = Some ''bike'' then 30
      else if vehicle_type = Some ''auto'' then 50
      else 80)"

text \<open>
  JavaScript numbers are binary64. \<open>binary64 x\<close> is the result of an arithmetic operation
  whose exact value is \<open>x\<close>: \<open>x\<close> rounded to the nearest number with a 53-bit significand
  at the binary exponent of \<open>x\<close> (not below -1022, where the subnormal numbers lie), a tie
  going to the even significand. \<open>ilog2 n\<close> is the position of the leading bit of \<open>n\<close>,
  \<open>exponent a\<close> the binary exponent of a positive \<open>a\<close>. Overflow to Infinity is not part
  of \<open>binary64\<close>; the numbers of the fare estimate stay below 256.
\<close>

function ilog2 :: "int \<Rightarrow> nat" where
  "ilog2 n = (if n < 2 then 0 else Suc (ilog2 (n div 2)))"
  by pat_completeness auto
termination
  by (relation "measure nat") auto

declare ilog2.simps [simp del]

definition pow2 :: "int \<Rightarrow> real" where
  "pow2 k = (if 0 \<le> k then 2 ^ nat k else 1 / 2 ^ nat (- k))"

definition exponent :: "real \<Rightarrow> int" where
  "exponent a =
     (if 1 \<le> a then int (ilog2 \<lfloor>a\<rfloor>)
      else if a * 2 ^ ilog2 \<lfloor>1 / a\<rfloor> = 1 then - int (ilog2 \<lfloor>1 / a\<rfloor>)
      else - int (ilog2 \<lfloor>1 / a\<rfloor>) - 1)"

definition round_half_even :: "real \<Rightarrow> int" where
  "round_half_even y =
     (if y - of_int \<lfloor>y\<rfloor> < 1 / 2 then \<lfloor>y\<rfloor>
      else if 1 / 2 < y - of_int \<lfloor>y\<rfloor> then \<lfloor>y\<rfloor> + 1
      else if even \<lfloor>y\<rfloor> then \<lfloor>y\<rfloor> else \<lfloor>y\<rfloor> + 1)"

definition binary64 :: "real \<Rightarrow> real" where
  "binary64 x =
     (if x = 0 then 0
      else of_int (round_half_even (x / pow2 (max (exponent \<bar>x\<bar>) (- 1022) - 52)))
             * pow2 (max (exponent \<bar>x\<bar>) (- 1022) - 52))"

text \<open>\<^verbatim>\<open>Math.round\<close>: the nearest integer, a tie going up; the result is exact.\<close>

definition Math_round :: "real \<Rightarrow> int" where
  "Math_round x = \<lfloor>x + 1 / 2\<rfloor>"

text \<open>
  \<^verbatim>\<open>const estimatedFare = Math.round(baseFare + Math.random() * 100);\<close>
  The second argument is the value that \<^verbatim>\<open>Math.random()\<close> returned. The product is rounded
  to binary64, then the sum is.
\<close>

definition estimatedFare :: "string option \<Rightarrow> real \<Rightarrow> int" where
  "estimatedFare vehicle_type random =
     Math_round (binary64 (of_int (baseFare vehicle_type) + binary64 (random * 100)))"

section \<open>Tables\<close>

text \<open>
  Modelled from the spec: the \<^verbatim>\<open>profiles\<close> table and its \<^verbatim>\<open>user_role\<close> enum, whose
  \<^verbatim>\<open>CREATE TABLE\<close> is not among the sources. The spec gives
  \<open>{user_id, full_name, phone, user_type \<in> {customer, rider}}\<close>; the columns are the ones
  that \<^verbatim>\<open>handle_new_user\<close> fills, and \<^verbatim>\<open>user_id\<close> is the target of the foreign keys
  of the other tables.
\<close>

datatype user_role = Customer | Rider

record profile =
  p_user_id :: uuid
  full_name :: "string option"
  phone :: "string option"
  user_type :: user_role

text \<open>A row of \<^verbatim>\<open>auth.users\<close>, as far as the handlers look at it.\<close>

record auth_user =
  au_id :: uuid
  email :: "string option"

record driver_profile =
  dp_user_id :: uuid
  dp_vehicle_type :: vehicle_type
  vehicle_number :: string
  license_number :: "string option"
  is_available :: bool

record ride =
  ride_id :: uuid
  customer_id :: uuid
  driver_id :: "uuid option"
  from_location :: string
  to_location :: string
  pickup_time :: timestamptz
  vehicle_type :: vehicle_type
  distance_km :: "real option"
  estimated_fare :: "real option"
  final_fare :: "real option"
  status :: ride_status
  ride_notes :: "string option"
  created_at :: timestamptz
  updated_at :: timestamptz

record ride_notification =
  n_id :: uuid
  n_ride_id :: uuid
  n_user_id :: uuid
  message :: string
  is_read :: bool
  n_created_at :: timestamptz

text \<open>
  The backend: the identity service (\<open>sessions\<close> maps a bearer token to the user it was
  issued to, \<open>auth_users\<close> is \<^verbatim>\<open>auth.users\<close>) and the four tables, each a list of rows in
  insertion order.
\<close>

record store =
  sessions :: "(string \<times> uuid) list"
  auth_users :: "auth_user list"
  profiles :: "profile list"
  driver_profiles :: "driver_profile list"
  rides :: "ride list"
  ride_notifications :: "ride_notification list"

text \<open>
  What a call takes from its surroundings: the value \<^verbatim>\<open>Math.random()\<close> returns, the
  reading of the database clock (\<^verbatim>\<open>now()\<close>), and the input function of the
  \<^verbatim>\<open>timestamptz\<close> type, which decides whether a text is a timestamp.
\<close>

record env =
  math_random :: real
  now :: timestamptz
  timestamptz_in :: "string \<Rightarrow> timestamptz option"

section \<open>Errors\<close>

text \<open>
  What the store answers when it refuses a statement (the string is the column):
  22P02/22007 for a text that is no value of the column's type, 23502 for NULL in a
  \<^verbatim>\<open>NOT NULL\<close> column, 23503 for a broken foreign key, 22003 for a number that does not
  fit its \<^verbatim>\<open>DECIMAL(p,s)\<close>, and PGRST116 when \<^verbatim>\<open>.single()\<close> does not find exactly one row.
\<close>

datatype store_error =
    Invalid_text_representation string
  | Not_null_violation string
  | Foreign_key_violation string
  | Numeric_value_out_of_range string
  | No_single_row

text \<open>
  What a handler throws, named after its message; every one of them becomes the response
  \<^verbatim>\<open>{ error: message }\<close> with status 400. A store error that is rethrown keeps the store's
  message. The last one is the toast of the driver dashboard.
\<close>

datatype error =
    No_authorization_header
  | Unauthorized
  | Customer_profile_not_found
  | Driver_profile_not_found
  | Driver_vehicle_profile_not_found
  | Ride_not_found_or_already_accepted
  | Customer_auth_details_not_found
  | Store_error store_error
  | Please_enter_distance_and_fare

section \<open>Store operations\<close>

text \<open>\<^verbatim>\<open>.single()\<close>: the row when the query selects exactly one, an error otherwise.\<close>

fun single_row :: "'a list \<Rightarrow> store_error + 'a" where
  "single_row [x] = Inr x"
| "single_row xs = Inl No_single_row"

text \<open>
  \<^verbatim>\<open>DEFAULT gen_random_uuid()\<close>: an identifier that the column does not hold yet (the
  chance of a random UUID colliding is neglected).
\<close>

definition gen_random_uuid :: "uuid list \<Rightarrow> uuid" where
  "gen_random_uuid used = Suc (foldr max used 0)"

text \<open>Input of the enum types \<^verbatim>\<open>vehicle_type\<close> and \<^verbatim>\<open>ride_status\<close>.\<close>

definition vehicle_type_in :: "string \<Rightarrow> vehicle_type option" where
  "vehicle_type_in t =
     (if t = ''auto'' then Some Auto
      else if t = ''car'' then Some Car
      else if t = ''bike'' then Some Bike
      else None)"

definition ride_status_in :: "string \<Rightarrow> ride_status option" where
  "ride_status_in t =
     (if t = ''pending'' then Some Pending
      else if t = ''accepted'' then Some Accepted
      else if t = ''in_progress'' then Some In_progress
      else if t = ''completed'' then Some Completed
      else if t = ''cancelled'' then Some Cancelled
      else None)"

definition cast_vehicle_type :: "string \<Rightarrow> string option \<Rightarrow> store_error + vehicle_type option" where
  "cast_vehicle_type col v =
     (case v of
        None \<Rightarrow> Inr None
      | Some t \<Rightarrow>
          (case vehicle_type_in t of
             None \<Rightarrow> Inl (Invalid_text_representation col)
           | Some x \<Rightarrow> Inr (Some x)))"

definition cast_ride_status :: "string \<Rightarrow> string option \<Rightarrow> store_error + ride_status option" where
  "cast_ride_status col v =
     (case v of
        None \<Rightarrow> Inr None
      | Some t \<Rightarrow>
          (case ride_status_in t of
             None \<Rightarrow> Inl (Invalid_text_representation col)
           | Some x \<Rightarrow> Inr (Some x)))"

definition cast_timestamptz :: "env \<Rightarrow> string \<Rightarrow> string option \<Rightarrow> store_error + timestamptz option" where
  "cast_timestamptz e col v =
     (case v of
        None \<Rightarrow> Inr None
      | Some t \<Rightarrow>
          (case timestamptz_in e t of
             None \<Rightarrow> Inl (Invalid_text_representation col)
           | Some x \<Rightarrow> Inr (Some x)))"

text \<open>
  \<^verbatim>\<open>DECIMAL(p,s)\<close>: the value is rounded to \<open>s\<close> decimals, a tie going away from zero, and
  refused when the rounded value needs more than \<open>p - s\<close> digits before the point.
\<close>

definition numeric_round :: "nat \<Rightarrow> real \<Rightarrow> real" where
  "numeric_round s x =
     (if 0 \<le> x then of_int \<lfloor>x * 10 ^ s + 1 / 2\<rfloor> / 10 ^ s
      else - (of_int \<lfloor>- x * 10 ^ s + 1 / 2\<rfloor> / 10 ^ s))"

definition cast_decimal :: "nat \<Rightarrow> nat \<Rightarrow> string \<Rightarrow> real option \<Rightarrow> store_error + real option" where
  "cast_decimal p s col v =
     (case v of
        None \<Rightarrow> Inr None
      | Some x \<Rightarrow>
          (if 10 ^ (p - s) \<le> \<bar>numeric_round s x\<bar> then Inl (Numeric_value_out_of_range col)
           else Inr (Some (numeric_round s x))))"

definition not_null :: "string \<Rightarrow> 'a option \<Rightarrow> store_error + 'a" where
  "not_null col v = (case v of None \<Rightarrow> Inl (Not_null_violation col) | Some x \<Rightarrow> Inr x)"

text \<open>
  \<^verbatim>\<open>INSERT INTO rides\<close> with the columns that create-ride supplies. The texts are read
  into their column types, the \<^verbatim>\<open>NOT NULL\<close> columns are checked, then the foreign key of
  \<^verbatim>\<open>customer_id\<close>; \<^verbatim>\<open>id\<close>, \<^verbatim>\<open>status\<close>, \<^verbatim>\<open>created_at\<close> and \<^verbatim>\<open>updated_at\<close> take their
  defaults, the columns not supplied are NULL.
\<close>

definition new_ride_row ::
  "env \<Rightarrow> store \<Rightarrow> uuid \<Rightarrow> string option \<Rightarrow> string option \<Rightarrow> string option \<Rightarrow> string option
     \<Rightarrow> string option \<Rightarrow> real \<Rightarrow> store_error + ride" where
  "new_ride_row e s customer from_loc to_loc pickup vtype note fare =
     (case cast_timestamptz e ''pickup_time'' pickup of Inl err \<Rightarrow> Inl err | Inr pickup' \<Rightarrow>
      (case cast_vehicle_type ''vehicle_type'' vtype of Inl err \<Rightarrow> Inl err | Inr vtype' \<Rightarrow>
       (case cast_decimal 10 2 ''estimated_fare'' (Some fare) of Inl err \<Rightarrow> Inl err | Inr fare' \<Rightarrow>
        (case not_null ''from_location'' from_loc of Inl err \<Rightarrow> Inl err | Inr f \<Rightarrow>
         (case not_null ''to_location'' to_loc of Inl err \<Rightarrow> Inl err | Inr t \<Rightarrow>
          (case not_null ''pickup_time'' pickup' of Inl err \<Rightarrow> Inl err | Inr pt \<Rightarrow>
           (case not_null ''vehicle_type'' vtype' of Inl err \<Rightarrow> Inl err | Inr vt \<Rightarrow>
            (if customer \<notin> set (map p_user_id (profiles s))
             then Inl (Foreign_key_violation ''customer_id'')
             else Inr \<lparr>ride_id = gen_random_uuid (map ride_id (rides s)),
                       customer_id = customer, driver_id = None,
                       from_location = f, to_location = t, pickup_time = pt, vehicle_type = vt,
                       distance_km = None, estimated_fare = fare', final_fare = None,
                       status = Pending, ride_notes = note,
                       created_at = now e, updated_at = now e\<rparr>))))))))"

text \<open>\<^verbatim>\<open>.insert({...}).select().single()\<close>: the new row is appended and returned.\<close>

definition insert_ride ::
  "env \<Rightarrow> store \<Rightarrow> uuid \<Rightarrow> string option \<Rightarrow> string option \<Rightarrow> string option \<Rightarrow> string option
     \<Rightarrow> string option \<Rightarrow> real \<Rightarrow> store \<times> (store_error + ride)" where
  "insert_ride e s customer from_loc to_loc pickup vtype note fare =
     (case new_ride_row e s customer from_loc to_loc pickup vtype note fare of
        Inl err \<Rightarrow> (s, Inl err)
      | Inr r \<Rightarrow> (s\<lparr>rides := rides s @ [r]\<rparr>, Inr r))"

text \<open>
  \<^verbatim>\<open>INSERT INTO ride_notifications\<close> with ride_id, user_id and message: both foreign keys
  are checked, \<^verbatim>\<open>id\<close>, \<^verbatim>\<open>is_read\<close> and \<^verbatim>\<open>created_at\<close> take their defaults.
\<close>

definition insert_notification ::
  "env \<Rightarrow> store \<Rightarrow> uuid \<Rightarrow> uuid \<Rightarrow> string \<Rightarrow> store \<times> (store_error + unit)" where
  "insert_notification e s rid uid msg =
     (if rid \<notin> set (map ride_id (rides s)) then (s, Inl (Foreign_key_violation ''ride_id''))
      else if uid \<notin> set (map p_user_id (profiles s)) then (s, Inl (Foreign_key_violation ''user_id''))
      else (s\<lparr>ride_notifications := ride_notifications s @
                [\<lparr>n_id = gen_random_uuid (map n_id (ride_notifications s)),
                  n_ride_id = rid, n_user_id = uid, message = msg, is_read = False,
                  n_created_at = now e\<rparr>]\<rparr>, Inr ()))"

text \<open>
  The body of \<^verbatim>\<open>.update(...)\<close> on \<^verbatim>\<open>rides\<close>, as JSON: \<open>None\<close> is a key that the object does
  not have; for the two numeric columns \<open>Some None\<close> is the key with the value
  \<^verbatim>\<open>null\<close>.
\<close>

record ride_patch =
  set_driver_id :: "uuid option"
  set_status :: "string option"
  set_distance_km :: "real option option"
  set_final_fare :: "real option option"

definition cast_decimal_key ::
  "nat \<Rightarrow> nat \<Rightarrow> string \<Rightarrow> real option option \<Rightarrow> store_error + real option option" where
  "cast_decimal_key p s col k =
     (case k of
        None \<Rightarrow> Inr None
      | Some v \<Rightarrow> (case cast_decimal p s col v of Inl err \<Rightarrow> Inl err | Inr v' \<Rightarrow> Inr (Some v')))"

definition apply_patch ::
  "env \<Rightarrow> uuid option \<Rightarrow> ride_status option \<Rightarrow> real option option \<Rightarrow> real option option
     \<Rightarrow> ride \<Rightarrow> ride" where
  "apply_patch e d st dkm fare r =
     r\<lparr>driver_id := (case d of None \<Rightarrow> driver_id r | Some x \<Rightarrow> Some x),
       status := (case st of None \<Rightarrow> status r | Some x \<Rightarrow> x),
       distance_km := (case dkm of None \<Rightarrow> distance_km r | Some v \<Rightarrow> v),
       final_fare := (case fare of None \<Rightarrow> final_fare r | Some v \<Rightarrow> v),
       updated_at := now e\<rparr>"

text \<open>
  \<^verbatim>\<open>UPDATE rides SET ... WHERE sel\<close>, seen through a row-level policy: only the rows that
  the policy lets the caller update are touched, the others are skipped without an error.
  The values are read into their column types first; a new \<^verbatim>\<open>driver_id\<close> must be the
  \<^verbatim>\<open>user_id\<close> of a profile; the trigger \<^verbatim>\<open>update_rides_updated_at\<close> stamps every updated row
  (the body of \<^verbatim>\<open>update_updated_at_column()\<close> is not among the sources; it is taken to set
  \<^verbatim>\<open>updated_at\<close> to \<^verbatim>\<open>now()\<close>, as its name says).
\<close>

definition update_rides ::
  "env \<Rightarrow> store \<Rightarrow> (ride \<Rightarrow> bool) \<Rightarrow> (ride \<Rightarrow> bool) \<Rightarrow> ride_patch \<Rightarrow> store \<times> (store_error + unit)" where
  "update_rides e s policy sel patch =
     (case cast_ride_status ''status'' (set_status patch) of Inl err \<Rightarrow> (s, Inl err) | Inr st \<Rightarrow>
      (case cast_decimal_key 8 2 ''distance_km'' (set_distance_km patch) of Inl err \<Rightarrow> (s, Inl err) | Inr dkm \<Rightarrow>
       (case cast_decimal_key 10 2 ''final_fare'' (set_final_fare patch) of Inl err \<Rightarrow> (s, Inl err) | Inr fare \<Rightarrow>
        (if filter (\<lambda>r. sel r \<and> policy r) (rides s) \<noteq> []
            \<and> (case set_driver_id patch of None \<Rightarrow> False
                | Some d \<Rightarrow> d \<notin> set (map p_user_id (profiles s)))
         then (s, Inl (Foreign_key_violation ''driver_id''))
         else (s\<lparr>rides := map (\<lambda>r. if sel r \<and> policy r
                                    then apply_patch e (set_driver_id patch) st dkm fare r
                                    else r) (rides s)\<rparr>, Inr ())))))"

text \<open>The service-role client of the two handlers bypasses row-level security.\<close>

definition service_role :: "ride \<Rightarrow> bool" where
  "service_role r = True"


definition rides_update_policy :: "uuid \<Rightarrow> ride \<Rightarrow> bool" where
  "rides_update_policy uid r \<longleftrightarrow> Some uid = driver_id r \<or> uid = customer_id r"


section \<open>Resolving the caller\<close>

text \<open>\<^verbatim>\<open>supabase.auth.getUser(jwt)\<close> and \<^verbatim>\<open>supabase.auth.admin.getUserById(id)\<close>.\<close>

definition getUserById :: "store \<Rightarrow> uuid \<Rightarrow> auth_user option" where
  "getUserById s uid = find (\<lambda>u. au_id u = uid) (auth_users s)"

definition getUser :: "store \<Rightarrow> string \<Rightarrow> auth_user option" where
  "getUser s jwt = (case map_of (sessions s) jwt of None \<Rightarrow> None | Some uid \<Rightarrow> getUserById s uid)"

text \<open>\<^verbatim>\<open>str.replace(pat, '')\<close>: the first occurrence of \<open>pat\<close> is cut out.\<close>

fun replace_first :: "string \<Rightarrow> string \<Rightarrow> string" where
  "replace_first pat [] = []"
| "replace_first pat (c # cs) =
     (if take (length pat) (c # cs) = pat then drop (length pat) (c # cs)
      else c # replace_first pat cs)"

text \<open>
  The first lines of both handlers: \<^verbatim>\<open>if (!authHeader) throw ...\<close> (an empty header is
  falsy as well), then \<^verbatim>\<open>getUser(authHeader.replace('Bearer ', ''))\<close> and
  \<^verbatim>\<open>if (authError || !user) throw new Error('Unauthorized')\<close>.
\<close>

definition authenticate :: "store \<Rightarrow> string option \<Rightarrow> error + auth_user" where
  "authenticate s authHeader =
     (case authHeader of
        None \<Rightarrow> Inl No_authorization_header
      | Some h \<Rightarrow>
          (if h = [] then Inl No_authorization_header
           else (case getUser s (replace_first ''Bearer '' h) of
                   None \<Rightarrow> Inl Unauthorized
                 | Some user \<Rightarrow> Inr user)))"

section \<open>The create-ride handler\<close>

text \<open>The body of the request: a field that is absent or null is \<open>None\<close>.\<close>

record create_ride_request =
  req_from_location :: "string option"
  req_to_location :: "string option"
  req_pickup_time :: "string option"
  req_vehicle_type :: "string option"
  req_notes :: "string option"

text \<open>A value inside a template literal; an absent one prints as \<^verbatim>\<open>undefined\<close>.\<close>

definition template_value :: "string option \<Rightarrow> string" where
  "template_value v = (case v of None \<Rightarrow> ''undefined'' | Some t \<Rightarrow> t)"

text \<open>
  The handler from the authorization header to the response: \<open>Inl\<close> is the response
  \<^verbatim>\<open>{ error }\<close>, \<open>Inr ride\<close> is \<^verbatim>\<open>{ success: true, ride }\<close>. The e-mail is sent inside its own
  \<^verbatim>\<open>try/catch\<close>, touches no table and cannot change the response; it is not modelled. The
  result of the notification insert is awaited and never looked at.
\<close>

definition create_ride ::
  "env \<Rightarrow> store \<Rightarrow> string option \<Rightarrow> create_ride_request \<Rightarrow> store \<times> (error + ride)" where
  "create_ride e s authHeader req =
     (case authenticate s authHeader of Inl err \<Rightarrow> (s, Inl err) | Inr user \<Rightarrow>
      (case single_row (filter (\<lambda>p. p_user_id p = au_id user) (profiles s)) of
         Inl err \<Rightarrow> (s, Inl Customer_profile_not_found)
       | Inr customerProfile \<Rightarrow>
          (case insert_ride e s (au_id user) (req_from_location req) (req_to_location req)
                  (req_pickup_time req) (req_vehicle_type req) (req_notes req)
                  (of_int (estimatedFare (req_vehicle_type req) (math_random e))) of
             (s1, Inl rideError) \<Rightarrow> (s1, Inl (Store_error rideError))
           | (s1, Inr ride) \<Rightarrow>
               (fst (insert_notification e s1 (ride_id ride) (au_id user)
                      (''Your ride request from '' @ template_value (req_from_location req)
                        @ '' to '' @ template_value (req_to_location req)
                        @ '' has been submitted.'')),
                Inr ride))))"

section \<open>The accept-ride handler\<close>

text \<open>\<^verbatim>\<open>driverProfile.full_name || 'a driver'\<close>: null and the empty string are falsy.\<close>

definition name_or :: "string option \<Rightarrow> string \<Rightarrow> string" where
  "name_or v d = (case v of None \<Rightarrow> d | Some t \<Rightarrow> if t = [] then d else t)"

text \<open>
  The handler for the request body \<^verbatim>\<open>{ ride_id }\<close>; an id that is missing or is no UUID
  selects no row, like an id that no ride has. The embedded
  \<^verbatim>\<open>profiles!rides_customer_id_fkey(full_name, phone)\<close> adds a field to the selected ride and
  no row to the result; nothing reads it. The two notification inserts run under
  \<^verbatim>\<open>Promise.all\<close>, their results are never looked at; they are taken in the order written.
\<close>

definition accept_ride :: "env \<Rightarrow> store \<Rightarrow> string option \<Rightarrow> uuid \<Rightarrow> store \<times> (error + unit)" where
  "accept_ride e s authHeader rid =
     (case authenticate s authHeader of Inl err \<Rightarrow> (s, Inl err) | Inr user \<Rightarrow>
      (case single_row (filter (\<lambda>p. p_user_id p = au_id user) (profiles s)) of
         Inl err \<Rightarrow> (s, Inl Driver_profile_not_found)
       | Inr driverProfile \<Rightarrow>
      (case single_row (filter (\<lambda>d. dp_user_id d = au_id user) (driver_profiles s)) of
         Inl err \<Rightarrow> (s, Inl Driver_vehicle_profile_not_found)
       | Inr driverVehicle \<Rightarrow>
      (case single_row (filter (\<lambda>r. ride_id r = rid \<and> status r = Pending) (rides s)) of
         Inl err \<Rightarrow> (s, Inl Ride_not_found_or_already_accepted)
       | Inr ride \<Rightarrow>
      (case update_rides e s service_role (\<lambda>r. ride_id r = rid)
              \<lparr>set_driver_id = Some (au_id user), set_status = Some ''accepted'',
               set_distance_km = None, set_final_fare = None\<rparr> of
         (s1, Inl updateError) \<Rightarrow> (s1, Inl (Store_error updateError))
       | (s1, Inr u) \<Rightarrow>
      (case single_row (filter (\<lambda>p. p_user_id p = customer_id ride) (profiles s1)) of
         Inl customerError \<Rightarrow> (s1, Inl (Store_error customerError))
       | Inr customer \<Rightarrow>
      (case getUserById s1 (customer_id ride) of
         None \<Rightarrow> (s1, Inl Customer_auth_details_not_found)
       | Some customerAuth \<Rightarrow>
          (let s2 = fst (insert_notification e s1 rid (customer_id ride)
                          (''Your ride has been accepted by ''
                            @ name_or (full_name driverProfile) ''a driver''
                            @ ''. They will contact you shortly.''));
               s3 = fst (insert_notification e s2 rid (au_id user)
                          (''You have successfully accepted a ride from '' @ from_location ride
                            @ '' to '' @ to_location ride @ ''.''))
           in (s3, Inr ())))))))))"

section \<open>The driver dashboard\<close>




text \<open>
  A JavaScript number: NaN, a finite binary64 value, or one of the two infinities.
  \<^verbatim>\<open>parseFloat\<close> skips leading white space and reads the longest prefix of the form
  sign, then either the word \<^verbatim>\<open>Infinity\<close> or digits, point, digits, exponent; NaN when
  there is neither. The decimal read is rounded to binary64, and to an infinity when the
  rounded magnitude reaches \<open>2 ^ 1024\<close>.
\<close>

datatype jsnum = NaN | Num real | Infinity | Minus_Infinity

definition is_digit :: "char \<Rightarrow> bool" where
  "is_digit c \<longleftrightarrow> c \<in> set ''0123456789''"

definition digit_val :: "char \<Rightarrow> nat" where
  "digit_val c = length (takeWhile (\<lambda>d. d \<noteq> c) ''0123456789'')"

definition digits_val :: "string \<Rightarrow> nat" where
  "digits_val ds = foldl (\<lambda>a c. 10 * a + digit_val c) 0 ds"

definition is_space :: "char \<Rightarrow> bool" where
  "is_space c \<longleftrightarrow> c \<in> set [CHR '' '', CHR 0x09, CHR 0x0A, CHR 0x0B, CHR 0x0C, CHR 0x0D]"

fun parse_sign :: "string \<Rightarrow> bool \<times> string" where
  "parse_sign [] = (False, [])"
| "parse_sign (c # cs) =
     (if c = CHR ''-'' then (True, cs) else if c = CHR ''+'' then (False, cs) else (False, c # cs))"

definition parse_exponent :: "string \<Rightarrow> real" where
  "parse_exponent s =
     (case s of
        [] \<Rightarrow> 1
      | c # cs \<Rightarrow>
          (if c = CHR ''e'' \<or> c = CHR ''E''
           then (case parse_sign cs of
                   (neg, ds) \<Rightarrow>
                     (if takeWhile is_digit ds = [] then 1
                      else if neg then 1 / 10 ^ digits_val (takeWhile is_digit ds)
                      else 10 ^ digits_val (takeWhile is_digit ds)))
           else 1))"

definition parseFloat :: "string \<Rightarrow> jsnum" where
  "parseFloat str =
     (case parse_sign (dropWhile is_space str) of
        (neg, s1) \<Rightarrow>
          (if take 8 s1 = ''Infinity'' then (if neg then Minus_Infinity else Infinity)
           else
            (let ip = takeWhile is_digit s1;
                 s2 = dropWhile is_digit s1;
                 fp = (case s2 of [] \<Rightarrow> [] | c # cs \<Rightarrow> if c = CHR ''.'' then takeWhile is_digit cs else []);
                 s3 = (case s2 of [] \<Rightarrow> [] | c # cs \<Rightarrow> if c = CHR ''.'' then dropWhile is_digit cs else s2);
                 m = binary64 ((real (digits_val ip) + real (digits_val fp) / 10 ^ length fp)
                                * parse_exponent s3)
             in if ip = [] \<and> fp = [] then NaN
                else if 2 ^ 1024 \<le> m then (if neg then Minus_Infinity else Infinity)
                else Num (if neg then - m else m))))"

text \<open>
  \<^verbatim>\<open>if (distance)\<close> on an optional number: undefined, NaN and zero are falsy. A number
  that passes goes into the update object as it is; \<^verbatim>\<open>JSON.stringify\<close> writes a finite
  number as itself and an infinity as \<^verbatim>\<open>null\<close>.
\<close>

definition js_truthy :: "jsnum option \<Rightarrow> bool" where
  "js_truthy v =
     (case v of None \<Rightarrow> False | Some NaN \<Rightarrow> False | Some (Num x) \<Rightarrow> x \<noteq> 0
      | Some Infinity \<Rightarrow> True | Some Minus_Infinity \<Rightarrow> True)"

definition json_number :: "jsnum option \<Rightarrow> real option option" where
  "json_number v = (case v of None \<Rightarrow> None | Some (Num x) \<Rightarrow> Some (Some x) | Some _ \<Rightarrow> Some None)"

text \<open>
  The \<^verbatim>\<open>mutationFn\<close> of \<^verbatim>\<open>updateRideStatus\<close>:
  \<^verbatim>\<open>const updateData: any = { status };\<close>
  \<^verbatim>\<open>if (distance) updateData.distance_km = distance;\<close>
  \<^verbatim>\<open>if (fare) updateData.final_fare = fare;\<close>
  and one \<^verbatim>\<open>.update(updateData).eq('id', rideId)\<close>.
\<close>

definition updateRideStatus ::
  "env \<Rightarrow> store \<Rightarrow> uuid \<Rightarrow> uuid \<Rightarrow> string \<Rightarrow> jsnum option \<Rightarrow> jsnum option
     \<Rightarrow> store \<times> (store_error + unit)" where
  "updateRideStatus e s uid rideId new_status distance fare =
     update_rides e s (rides_update_policy uid) (\<lambda>r. ride_id r = rideId)
       \<lparr>set_driver_id = None, set_status = Some new_status,
        set_distance_km = (if js_truthy distance then json_number distance else None),
        set_final_fare = (if js_truthy fare then json_number fare else None)\<rparr>"

text \<open>
  \<^verbatim>\<open>handleStatusUpdate\<close> of a ride card, with the texts of its two input fields: \<open>Inl\<close> is
  an error toast, \<open>Inr ()\<close> the toast \<^verbatim>\<open>Ride status updated!\<close>.
\<close>

definition handleStatusUpdate ::
  "env \<Rightarrow> store \<Rightarrow> uuid \<Rightarrow> ride \<Rightarrow> string \<Rightarrow> string \<Rightarrow> string \<Rightarrow> store \<times> (error + unit)" where
  "handleStatusUpdate e s uid r distance fare newStatus =
     (if newStatus = ''completed''
      then (if distance = [] \<or> fare = [] then (s, Inl Please_enter_distance_and_fare)
            else (case updateRideStatus e s uid (ride_id r) newStatus
                         (Some (parseFloat distance)) (Some (parseFloat fare)) of
                    (s1, Inl err) \<Rightarrow> (s1, Inl (Store_error err))
                  | (s1, Inr u) \<Rightarrow> (s1, Inr ())))
      else (case updateRideStatus e s uid (ride_id r) newStatus None None of
              (s1, Inl err) \<Rightarrow> (s1, Inl (Store_error err))
            | (s1, Inr u) \<Rightarrow> (s1, Inr ())))"

section \<open>The lookups of the handlers, named\<close>

text \<open>
  Shorthand for the three \<^verbatim>\<open>.single()\<close> queries of the handlers: the profile row of a
  user, the driver-profile row of a user, and the ride with a given id that is pending.
\<close>

abbreviation profile_of :: "store \<Rightarrow> uuid \<Rightarrow> store_error + profile" where
  "profile_of s uid \<equiv> single_row (filter (\<lambda>p. p_user_id p = uid) (profiles s))"

abbreviation driver_profile_of :: "store \<Rightarrow> uuid \<Rightarrow> store_error + driver_profile" where
  "driver_profile_of s uid \<equiv> single_row (filter (\<lambda>d. dp_user_id d = uid) (driver_profiles s))"

abbreviation pending_ride :: "store \<Rightarrow> uuid \<Rightarrow> store_error + ride" where
  "pending_ride s rid \<equiv> single_row (filter (\<lambda>r. ride_id r = rid \<and> status r = Pending) (rides s))"

section \<open>An example state\<close>

text \<open>
  Three accounts with a profile and a driver profile each (an auto, a car, a bike), and one
  pending car ride requested by the first of them. The clock of the example reads 1000 and
  knows one timestamp text.
\<close>

definition demo_env :: env where
  "demo_env = \<lparr>math_random = 1 / 2, now = 1000,
               timestamptz_in = (\<lambda>t. if t = ''2025-09-02T10:00:00Z'' then Some 900 else None)\<rparr>"

definition demo_ride :: ride where
  "demo_ride = \<lparr>ride_id = 10, customer_id = 1, driver_id = None,
                from_location = ''City Center'', to_location = ''Airport'', pickup_time = 900,
                vehicle_type = Car, distance_km = None, estimated_fare = Some 130,
                final_fare = None, status = Pending, ride_notes = None,
                created_at = 800, updated_at = 800\<rparr>"

definition demo_store :: store where
  "demo_store =
     \<lparr>sessions = [(''tok-1'', 1), (''tok-2'', 2), (''tok-3'', 3)],
      auth_users = [\<lparr>au_id = 1, email = Some ''asha@example.org''\<rparr>,
                    \<lparr>au_id = 2, email = Some ''ravi@example.org''\<rparr>,
                    \<lparr>au_id = 3, email = None\<rparr>],
      profiles = [\<lparr>p_user_id = 1, full_name = Some ''Asha'', phone = None, user_type = Customer\<rparr>,
                  \<lparr>p_user_id = 2, full_name = Some ''Ravi'', phone = None, user_type = Rider\<rparr>,
                  \<lparr>p_user_id = 3, full_name = None, phone = None, user_type = Rider\<rparr>],
      driver_profiles =
        [\<lparr>dp_user_id = 1, dp_vehicle_type = Auto, vehicle_number = ''KA01A1'',
          license_number = None, is_available = True\<rparr>,
         \<lparr>dp_user_id = 2, dp_vehicle_type = Car, vehicle_number = ''KA02B2'',
          license_number = None, is_available = True\<rparr>,
         \<lparr>dp_user_id = 3, dp_vehicle_type = Bike, vehicle_number = ''KA03C3'',
          license_number = None, is_available = True\<rparr>],
      rides = [demo_ride],
      ride_notifications = []\<rparr>"

text \<open>The same state after the account of the ride's customer was removed from \<^verbatim>\<open>auth.users\<close>.\<close>

definition orphan_store :: store where
  "orphan_store = demo_store\<lparr>auth_users := [\<lparr>au_id = 2, email = Some ''ravi@example.org''\<rparr>,
                                             \<lparr>au_id = 3, email = None\<rparr>]\<rparr>"

text \<open>The same state with the ride accepted and started by the second account.\<close>

definition started_store :: store where
  "started_store = demo_store\<lparr>rides := [demo_ride\<lparr>driver_id := Some 2, status := In_progress\<rparr>]\<rparr>"


text \<open>A complete booking request for the example clock.\<close>

definition demo_request :: create_ride_request where
  "demo_request = \<lparr>req_from_location = Some ''City Center'', req_to_location = Some ''Airport'',
                   req_pickup_time = Some ''2025-09-02T10:00:00Z'', req_vehicle_type = Some ''car'',
                   req_notes = None\<rparr>"

section \<open>Properties of the fare estimate\<close>


text \<open>
  Rounding to binary64 never crosses an integer below 256: at such a magnitude every
  integer is itself a binary64 number.
\<close>

lemma ilog2_le: "1 \<le> n \<Longrightarrow> 2 ^ ilog2 n \<le> n"
proof (induction n rule: ilog2.induct)
  case (1 n)
  show ?case
  proof (cases "n < 2")
    case True
    then show ?thesis using "1.prems" by (simp add: ilog2.simps[of n])
  next
    case False
    then have "1 \<le> n div 2" by simp
    with "1.IH" False have "2 ^ ilog2 (n div 2) \<le> n div 2" by simp
    then have "2 * 2 ^ ilog2 (n div 2) \<le> 2 * (n div 2)" by simp
    also have "\<dots> \<le> n" by simp
    finally show ?thesis using False by (simp add: ilog2.simps[of n])
  qed
qed

lemma exponent_le:
  assumes "0 < a" and "a < 256"
  shows "exponent a \<le> 7"
proof (cases "1 \<le> a")
  case True
  then have n: "1 \<le> \<lfloor>a\<rfloor>" by simp
  have fl: "\<lfloor>a\<rfloor> < 256" using assms(2) by (simp add: floor_less_iff)
  have "(2::int) ^ ilog2 \<lfloor>a\<rfloor> < 256" using ilog2_le[OF n] fl by linarith
  then have "(2::int) ^ ilog2 \<lfloor>a\<rfloor> < 2 ^ 8" by simp
  then have "ilog2 \<lfloor>a\<rfloor> < 8" by (simp only: power_strict_increasing_iff)
  then show ?thesis using True by (simp add: exponent_def)
next
  case False
  then show ?thesis by (simp add: exponent_def)
qed

lemma round_half_even_bounds:
  assumes "of_int A \<le> y" and "y \<le> of_int B"
  shows "A \<le> round_half_even y" and "round_half_even y \<le> B"
proof -
  have lo: "A \<le> \<lfloor>y\<rfloor>" using assms(1) by (simp add: le_floor_iff)
  have hi: "\<lfloor>y\<rfloor> \<le> B" using assms(2) by (simp add: floor_le_iff)
  show "A \<le> round_half_even y"
    using lo by (simp add: round_half_even_def)
  show "round_half_even y \<le> B"
  proof (cases "\<lfloor>y\<rfloor> = B")
    case True
    then have "y - of_int \<lfloor>y\<rfloor> \<le> 0" using assms(2) by simp
    then show ?thesis using True by (simp add: round_half_even_def)
  next
    case False
    with hi have "\<lfloor>y\<rfloor> + 1 \<le> B" by simp
    then show ?thesis by (simp add: round_half_even_def)
  qed
qed

lemma binary64_bounds:
  assumes "of_int L \<le> x" and "x \<le> of_int U" and "0 \<le> L" and "U < 256"
  shows "of_int L \<le> binary64 x" and "binary64 x \<le> of_int U"
proof -
  have both: "of_int L \<le> binary64 x \<and> binary64 x \<le> of_int U"
  proof (cases "x = 0")
    case True
    then show ?thesis using assms by (simp add: binary64_def)
  next
    case False
    have x0: "0 \<le> x" using assms(1,3) by (meson of_int_0_le_iff order_trans)
    with False have pos: "0 < x" by simp
    have "real_of_int U < 256" using assms(4) by simp
    with assms(2) have "x < 256" by linarith
    from exponent_le[OF pos this] have e: "max (exponent x) (- 1022) \<le> 7" by simp
    define m where "m = nat (52 - max (exponent x) (- 1022))"
    have q: "pow2 (max (exponent \<bar>x\<bar>) (- 1022) - 52) = 1 / 2 ^ m"
      using e x0 by (simp add: pow2_def m_def)
    have y: "x / (1 / 2 ^ m) = x * 2 ^ m" by simp
    have "of_int (L * 2 ^ m) \<le> x * 2 ^ m" using assms(1) by simp
    moreover have "x * 2 ^ m \<le> of_int (U * 2 ^ m)" using assms(2) by simp
    ultimately have r: "L * 2 ^ m \<le> round_half_even (x * 2 ^ m)" "round_half_even (x * 2 ^ m) \<le> U * 2 ^ m"
      by (rule round_half_even_bounds)+
    have "real_of_int (L * 2 ^ m) \<le> of_int (round_half_even (x * 2 ^ m))"
      using r(1) by (simp only: of_int_le_iff)
    then have a: "real_of_int L \<le> real_of_int (round_half_even (x * 2 ^ m)) / 2 ^ m"
      by (simp add: pos_le_divide_eq)
    have "real_of_int (round_half_even (x * 2 ^ m)) \<le> of_int (U * 2 ^ m)"
      using r(2) by (simp only: of_int_le_iff)
    then have b: "real_of_int (round_half_even (x * 2 ^ m)) / 2 ^ m \<le> real_of_int U"
      by (simp add: pos_divide_le_eq)
    show ?thesis
      using False a b by (simp add: binary64_def q y)
  qed
  from both show "of_int L \<le> binary64 x" ..
  from both show "binary64 x \<le> of_int U" ..
qed

lemma Math_round_bounds:
  assumes "of_int L \<le> x" and "x \<le> of_int U"
  shows "L \<le> Math_round x" and "Math_round x \<le> U"
proof -
  have "of_int L \<le> x + 1 / 2" using assms(1) by simp
  then show "L \<le> Math_round x"
    unfolding Math_round_def by (simp add: le_floor_iff)
  have "x + 1 / 2 < of_int (U + 1)" using assms(2) by simp
  then have "\<lfloor>x + 1 / 2\<rfloor> < U + 1"
    by (simp only: floor_less_iff)
  then show "Math_round x \<le> U"
    unfolding Math_round_def by simp
qed

lemma estimatedFare_between:
  assumes "0 \<le> r" and "r < 1"
  shows "baseFare vt \<le> estimatedFare vt r" and "estimatedFare vt r \<le> baseFare vt + 100"
proof -
  have b: "0 \<le> baseFare vt" "baseFare vt + 100 < 256" by (simp_all add: baseFare_def)
  have "real_of_int 0 \<le> r * 100" "r * 100 \<le> real_of_int 100" using assms by simp_all
  from binary64_bounds[OF this] have p: "0 \<le> binary64 (r * 100)" "binary64 (r * 100) \<le> 100"
    by simp_all
  have "real_of_int (baseFare vt) \<le> of_int (baseFare vt) + binary64 (r * 100)"
    "of_int (baseFare vt) + binary64 (r * 100) \<le> real_of_int (baseFare vt + 100)"
    using p by simp_all
  from binary64_bounds[OF this b]
  have "real_of_int (baseFare vt) \<le> binary64 (of_int (baseFare vt) + binary64 (r * 100))"
    "binary64 (of_int (baseFare vt) + binary64 (r * 100)) \<le> real_of_int (baseFare vt + 100)" .
  from Math_round_bounds[OF this]
  show "baseFare vt \<le> estimatedFare vt r" and "estimatedFare vt r \<le> baseFare vt + 100"
    by (simp_all add: estimatedFare_def)
qed

text \<open>
  The same expression at a value of \<^verbatim>\<open>Math.random()\<close> just below 0.995: the product rounds
  to 99.49999999999999, the sum rounds onto 179.5, and \<^verbatim>\<open>Math.round\<close> gives 180.
\<close>

lemma estimatedFare_rounding_example:
  "(4481081629233643 :: real) / 2 ^ 52 < 199 / 200
   \<and> binary64 (4481081629233643 / 2 ^ 52 * 100) = 7001690045677567 / 2 ^ 46
   \<and> binary64 (80 + 7001690045677567 / 2 ^ 46) = 359 / 2
   \<and> estimatedFare (Some ''car'') (4481081629233643 / 2 ^ 52) = 180"
  by code_simp




section \<open>Store operations: basic facts\<close>

lemma single_row_Inr_iff: "single_row xs = Inr x \<longleftrightarrow> xs = [x]"
  by (cases xs rule: single_row.cases) auto

lemma single_row_Inl_iff: "single_row xs = Inl err \<longleftrightarrow> err = No_single_row \<and> (\<forall>x. xs \<noteq> [x])"
  by (cases xs rule: single_row.cases) auto

lemma single_row_mem: "single_row (filter P xs) = Inr x \<Longrightarrow> x \<in> set xs \<and> P x"
proof -
  assume "single_row (filter P xs) = Inr x"
  then have "filter P xs = [x]" by (simp add: single_row_Inr_iff)
  then have "x \<in> set (filter P xs)" by simp
  then show ?thesis by simp
qed

lemma foldr_max_ge: "x \<in> set xs \<Longrightarrow> x \<le> foldr max xs (0::nat)"
  by (induction xs) (auto simp: max_def)

lemma foldr_max_init: "foldr max xs (b::nat) = max (foldr max xs 0) b"
  by (induction xs) (auto simp: max_def)

lemma gen_random_uuid_snoc:
  "gen_random_uuid (used @ [gen_random_uuid used]) = Suc (gen_random_uuid used)"
proof -
  have "foldr max used (Suc (foldr max used 0)) = Suc (foldr max used 0)"
    by (subst foldr_max_init) simp
  then show ?thesis by (simp add: gen_random_uuid_def)
qed

lemma gen_random_uuid_fresh: "gen_random_uuid used \<notin> set used"
proof
  assume "gen_random_uuid used \<in> set used"
  then have "gen_random_uuid used \<le> foldr max used 0" by (rule foldr_max_ge)
  then show False by (simp add: gen_random_uuid_def)
qed

lemma update_rides_accept:
  assumes "uid \<in> set (map p_user_id (profiles s))"
  shows "update_rides e s service_role (\<lambda>r. ride_id r = rid)
           \<lparr>set_driver_id = Some uid, set_status = Some ''accepted'',
            set_distance_km = None, set_final_fare = None\<rparr>
         = (s\<lparr>rides := map (\<lambda>r. if ride_id r = rid
                                 then r\<lparr>driver_id := Some uid, status := Accepted, updated_at := now e\<rparr>
                                 else r) (rides s)\<rparr>, Inr ())"
  using assms
  by (simp add: update_rides_def cast_ride_status_def ride_status_in_def cast_decimal_key_def
      service_role_def apply_patch_def)

lemma insert_notification_ok:
  assumes "rid \<in> set (map ride_id (rides s))" and "uid \<in> set (map p_user_id (profiles s))"
  shows "fst (insert_notification e s rid uid msg) =
           s\<lparr>ride_notifications := ride_notifications s @
                [\<lparr>n_id = gen_random_uuid (map n_id (ride_notifications s)),
                  n_ride_id = rid, n_user_id = uid, message = msg, is_read = False,
                  n_created_at = now e\<rparr>]\<rparr>"
  using assms by (simp add: insert_notification_def)

lemma insert_notification_tables:
  "rides (fst (insert_notification e s rid uid msg)) = rides s"
  "profiles (fst (insert_notification e s rid uid msg)) = profiles s"
  "driver_profiles (fst (insert_notification e s rid uid msg)) = driver_profiles s"
  "auth_users (fst (insert_notification e s rid uid msg)) = auth_users s"
  "sessions (fst (insert_notification e s rid uid msg)) = sessions s"
  by (simp_all add: insert_notification_def)



section \<open>The accept-ride handler, branch by branch\<close>

text \<open>
  Once the caller, both profile rows and the pending ride are found, the ride is written
  first; the customer lookups that follow decide between the two errors and success.
\<close>

lemma accept_ride_found:
  assumes auth: "authenticate s h = Inr u"
    and prof: "profile_of s (au_id u) = Inr p"
    and drv: "driver_profile_of s (au_id u) = Inr d"
    and ride: "pending_ride s rid = Inr r"
  shows "accept_ride e s h rid =
           (let s1 = s\<lparr>rides := map (\<lambda>x. if ride_id x = rid
                                        then x\<lparr>driver_id := Some (au_id u), status := Accepted, updated_at := now e\<rparr>
                                        else x) (rides s)\<rparr>
            in case profile_of s (customer_id r) of
                 Inl err \<Rightarrow> (s1, Inl (Store_error err))
               | Inr c \<Rightarrow>
                  (case getUserById s (customer_id r) of
                     None \<Rightarrow> (s1, Inl Customer_auth_details_not_found)
                   | Some a \<Rightarrow>
                      (s1\<lparr>ride_notifications := ride_notifications s @
                          [\<lparr>n_id = gen_random_uuid (map n_id (ride_notifications s)),
                            n_ride_id = rid, n_user_id = customer_id r,
                            message = ''Your ride has been accepted by ''
                               @ name_or (full_name p) ''a driver''
                               @ ''. They will contact you shortly.'',
                            is_read = False, n_created_at = now e\<rparr>,
                           \<lparr>n_id = Suc (gen_random_uuid (map n_id (ride_notifications s))),
                            n_ride_id = rid, n_user_id = au_id u,
                            message = ''You have successfully accepted a ride from '' @ from_location r
                               @ '' to '' @ to_location r @ ''.'',
                            is_read = False, n_created_at = now e\<rparr>]\<rparr>, Inr ())))"
proof -
  have pu: "au_id u \<in> set (map p_user_id (profiles s))"
    using single_row_mem[OF prof] by force
  have rin: "r \<in> set (rides s)" "ride_id r = rid"
    using single_row_mem[OF ride] by auto
  let ?s1 = "s\<lparr>rides := map (\<lambda>x. if ride_id x = rid
                                 then x\<lparr>driver_id := Some (au_id u), status := Accepted, updated_at := now e\<rparr>
                                 else x) (rides s)\<rparr>"
  have ids: "map ride_id (rides ?s1) = map ride_id (rides s)"
    by (simp add: comp_def cong: map_cong)
  have rid1: "rid \<in> set (map ride_id (rides ?s1))"
    unfolding ids using rin by force
  show ?thesis
  proof (cases "profile_of s (customer_id r)")
    case (Inl err)
    then show ?thesis
      by (simp add: accept_ride_def auth prof drv ride update_rides_accept[OF pu])
  next
    case (Inr c)
    have cu: "customer_id r \<in> set (map p_user_id (profiles ?s1))"
      using single_row_mem[OF Inr] by force
    show ?thesis
    proof (cases "getUserById s (customer_id r)")
      case None
      then show ?thesis
        by (simp add: accept_ride_def auth prof drv ride update_rides_accept[OF pu] Inr getUserById_def)
    next
      case (Some a)
      have n1: "fst (insert_notification e ?s1 rid (customer_id r) m1) =
          ?s1\<lparr>ride_notifications := ride_notifications s @
                [\<lparr>n_id = gen_random_uuid (map n_id (ride_notifications s)),
                  n_ride_id = rid, n_user_id = customer_id r, message = m1, is_read = False,
                  n_created_at = now e\<rparr>]\<rparr>" for m1
        using insert_notification_ok[OF rid1 cu, of e m1] by simp
      have fresh2: "gen_random_uuid (map n_id (ride_notifications s) @ [gen_random_uuid (map n_id (ride_notifications s))])
           = Suc (gen_random_uuid (map n_id (ride_notifications s)))"
        by (rule gen_random_uuid_snoc)
      show ?thesis
        using Some pu rid1
        apply (simp add: accept_ride_def auth prof drv ride update_rides_accept[OF pu] Inr getUserById_def Let_def n1)
        apply (simp add: insert_notification_def fresh2 comp_def)
        done
    qed
  qed
qed

lemma accept_ride_no_caller:
  "authenticate s h = Inl err \<Longrightarrow> accept_ride e s h rid = (s, Inl err)"
  by (simp add: accept_ride_def)

lemma accept_ride_no_profile:
  "authenticate s h = Inr u \<Longrightarrow> profile_of s (au_id u) = Inl x
    \<Longrightarrow> accept_ride e s h rid = (s, Inl Driver_profile_not_found)"
  by (simp add: accept_ride_def)

lemma accept_ride_no_driver_profile:
  "authenticate s h = Inr u \<Longrightarrow> profile_of s (au_id u) = Inr p
    \<Longrightarrow> driver_profile_of s (au_id u) = Inl x
    \<Longrightarrow> accept_ride e s h rid = (s, Inl Driver_vehicle_profile_not_found)"
  by (simp add: accept_ride_def)

lemma accept_ride_no_ride:
  "authenticate s h = Inr u \<Longrightarrow> profile_of s (au_id u) = Inr p
    \<Longrightarrow> driver_profile_of s (au_id u) = Inr d \<Longrightarrow> pending_ride s rid = Inl x
    \<Longrightarrow> accept_ride e s h rid = (s, Inl Ride_not_found_or_already_accepted)"
  by (simp add: accept_ride_def)

lemma accept_ride_found_error:
  assumes "authenticate s h = Inr u" "profile_of s (au_id u) = Inr p"
    "driver_profile_of s (au_id u) = Inr d" "pending_ride s rid = Inr r"
  shows "snd (accept_ride e s h rid) \<noteq> Inl Ride_not_found_or_already_accepted"
  by (simp add: accept_ride_found[OF assms] Let_def split: sum.splits option.splits)

lemma accept_ride_success_iff:
  "snd (accept_ride e s h rid) = Inr () \<longleftrightarrow>
     (\<exists>u p d r c a. authenticate s h = Inr u \<and> profile_of s (au_id u) = Inr p
        \<and> driver_profile_of s (au_id u) = Inr d \<and> pending_ride s rid = Inr r
        \<and> profile_of s (customer_id r) = Inr c \<and> getUserById s (customer_id r) = Some a)"
proof (cases "authenticate s h")
  case (Inl err)
  then show ?thesis by (simp add: accept_ride_no_caller)
next
  case auth: (Inr u)
  show ?thesis
  proof (cases "profile_of s (au_id u)")
    case (Inl x)
    then show ?thesis using auth by (simp add: accept_ride_no_profile)
  next
    case prof: (Inr p)
    show ?thesis
    proof (cases "driver_profile_of s (au_id u)")
      case (Inl x)
      then show ?thesis using auth prof by (simp add: accept_ride_no_driver_profile)
    next
      case drv: (Inr d)
      show ?thesis
      proof (cases "pending_ride s rid")
        case (Inl x)
        then show ?thesis using auth prof drv by (simp add: accept_ride_no_ride)
      next
        case ride: (Inr r)
        show ?thesis
          using auth prof drv ride
          by (simp add: accept_ride_found[OF auth prof drv ride] Let_def
              split: sum.splits option.splits)
      qed
    qed
  qed
qed

lemma accept_ride_unavailable_iff:
  "snd (accept_ride e s h rid) = Inl Ride_not_found_or_already_accepted \<longleftrightarrow>
     (\<exists>u p d. authenticate s h = Inr u \<and> profile_of s (au_id u) = Inr p
        \<and> driver_profile_of s (au_id u) = Inr d) \<and> (\<exists>x. pending_ride s rid = Inl x)"
proof (cases "authenticate s h")
  case (Inl err)
  then show ?thesis by (auto simp add: accept_ride_no_caller authenticate_def split: option.splits if_splits)
next
  case auth: (Inr u)
  show ?thesis
  proof (cases "profile_of s (au_id u)")
    case (Inl x)
    then show ?thesis using auth by (simp add: accept_ride_no_profile)
  next
    case prof: (Inr p)
    show ?thesis
    proof (cases "driver_profile_of s (au_id u)")
      case (Inl x)
      then show ?thesis using auth prof by (simp add: accept_ride_no_driver_profile)
    next
      case drv: (Inr d)
      show ?thesis
      proof (cases "pending_ride s rid")
        case (Inl x)
        then show ?thesis using auth prof drv by (simp add: accept_ride_no_ride)
      next
        case ride: (Inr r)
        show ?thesis
          using auth prof drv ride accept_ride_found_error[OF auth prof drv ride]
          by simp
      qed
    qed
  qed
qed

text \<open>
  \<^verbatim>\<open>id\<close> is the primary key of \<^verbatim>\<open>rides\<close>: with distinct ids the lookup of a pending ride by
  id fails exactly when there is no such row.
\<close>

lemma filter_distinct_key:
  assumes "distinct (map k xs)"
  shows "filter (\<lambda>x. k x = a \<and> P x) xs = [] \<or> (\<exists>y. filter (\<lambda>x. k x = a \<and> P x) xs = [y])"
  using assms
proof (induction xs)
  case Nil
  then show ?case by simp
next
  case (Cons x xs)
  show ?case
  proof (cases "k x = a")
    case True
    have "k x \<notin> k ` set xs" using Cons.prems by simp
    with True have "\<forall>y\<in>set xs. k y \<noteq> a" by blast
    then have "filter (\<lambda>x. k x = a \<and> P x) xs = []" by (simp add: filter_empty_conv)
    then show ?thesis by simp
  next
    case False
    then show ?thesis using Cons by simp
  qed
qed

lemma pending_ride_missing_iff:
  assumes "distinct (map ride_id (rides s))"
  shows "(\<exists>x. pending_ride s rid = Inl x) \<longleftrightarrow> \<not> (\<exists>r\<in>set (rides s). ride_id r = rid \<and> status r = Pending)"
proof
  assume "\<exists>x. pending_ride s rid = Inl x"
  then have ne: "\<forall>y. filter (\<lambda>r. ride_id r = rid \<and> status r = Pending) (rides s) \<noteq> [y]"
    by (auto simp: single_row_Inl_iff)
  with filter_distinct_key[OF assms, of rid "\<lambda>r. status r = Pending"]
  have "filter (\<lambda>r. ride_id r = rid \<and> status r = Pending) (rides s) = []" by blast
  then show "\<not> (\<exists>r\<in>set (rides s). ride_id r = rid \<and> status r = Pending)"
    by (auto simp: filter_empty_conv)
next
  assume "\<not> (\<exists>r\<in>set (rides s). ride_id r = rid \<and> status r = Pending)"
  then have "filter (\<lambda>r. ride_id r = rid \<and> status r = Pending) (rides s) = []"
    by (auto simp: filter_empty_conv)
  then show "\<exists>x. pending_ride s rid = Inl x" by simp
qed

lemma accept_ride_success_store:
  assumes "accept_ride e s h rid = (s', Inr ())"
  shows "\<exists>u p r n1 n2. authenticate s h = Inr u \<and> profile_of s (au_id u) = Inr p \<and> pending_ride s rid = Inr r
     \<and> s' = s\<lparr>rides := map (\<lambda>x. if ride_id x = rid
                               then x\<lparr>driver_id := Some (au_id u), status := Accepted, updated_at := now e\<rparr>
                               else x) (rides s),
              ride_notifications := ride_notifications s @ [n1, n2]\<rparr>
     \<and> n_ride_id n1 = rid \<and> n_user_id n1 = customer_id r
     \<and> n_ride_id n2 = rid \<and> n_user_id n2 = au_id u"
proof -
  from assms have "snd (accept_ride e s h rid) = Inr ()" by simp
  then obtain u p d r c a where
    auth: "authenticate s h = Inr u" and prof: "profile_of s (au_id u) = Inr p"
    and drv: "driver_profile_of s (au_id u) = Inr d" and ride: "pending_ride s rid = Inr r"
    and c: "profile_of s (customer_id r) = Inr c" and a: "getUserById s (customer_id r) = Some a"
    unfolding accept_ride_success_iff by blast
  show ?thesis
    using assms auth prof ride
    by (simp add: accept_ride_found[OF auth prof drv ride] Let_def c a) force
qed

lemma accept_ride_leaves_no_pending:
  assumes "accept_ride e s h rid = (s', Inr ())"
  shows "\<not> (\<exists>r\<in>set (rides s'). ride_id r = rid \<and> status r = Pending)"
    and "sessions s' = sessions s" "auth_users s' = auth_users s"
    and "profiles s' = profiles s" "driver_profiles s' = driver_profiles s"
  using accept_ride_success_store[OF assms] by auto

lemma rides_after_accept:
  fixes s :: store and e :: env
  defines "f \<equiv> (\<lambda>uid rid. \<lambda>x::ride. if ride_id x = rid
                               then x\<lparr>driver_id := Some uid, status := Accepted, updated_at := now e\<rparr>
                               else x)"
  assumes "r \<in> set (rides s)" and "ride_id r = rid"
  shows "r\<lparr>driver_id := Some uid, status := Accepted, updated_at := now e\<rparr> \<in> set (map (f uid rid) (rides s))"
    and "\<forall>x\<in>set (map (f uid rid) (rides s)). ride_id x = rid \<longrightarrow> driver_id x = Some uid \<and> status x = Accepted"
proof -
  have "f uid rid r \<in> f uid rid ` set (rides s)" using assms(2) by (rule imageI)
  moreover have "f uid rid r = r\<lparr>driver_id := Some uid, status := Accepted, updated_at := now e\<rparr>"
    using assms(3) by (simp add: f_def)
  ultimately show "r\<lparr>driver_id := Some uid, status := Accepted, updated_at := now e\<rparr> \<in> set (map (f uid rid) (rides s))"
    by simp
  show "\<forall>x\<in>set (map (f uid rid) (rides s)). ride_id x = rid \<longrightarrow> driver_id x = Some uid \<and> status x = Accepted"
  proof (intro ballI impI)
    fix x assume "x \<in> set (map (f uid rid) (rides s))" and xr: "ride_id x = rid"
    then obtain y where y: "y \<in> set (rides s)" "x = f uid rid y" by auto
    show "driver_id x = Some uid \<and> status x = Accepted"
    proof (cases "ride_id y = rid")
      case True
      then show ?thesis using y by (simp add: f_def)
    next
      case False
      then have "x = y" using y by (simp add: f_def)
      then show ?thesis using False xr by simp
    qed
  qed
qed

section \<open>Properties of accept-ride\<close>

text \<open>
  C1. Two calls of accept-ride, one after the other, on the same pending ride: when the
  first has succeeded, every later call for that ride returns an error and leaves the
  store as it is, and the error is \<^verbatim>\<open>Ride not found or already accepted\<close> whenever the
  later caller resolves to an identity with a profile row and a driver-profile row. In
  general, with \<^verbatim>\<open>id\<close> the primary key of \<^verbatim>\<open>rides\<close>, the handler answers with that error
  exactly when the caller has passed the three checks that come before the ride lookup and
  no ride with the given id and status pending exists, be it that the id is unknown or
  that the ride has left the pending state.
\<close>

theorem accept_ride_unavailable:
  "(distinct (map ride_id (rides s)) \<longrightarrow>
      (snd (accept_ride e s h rid) = Inl Ride_not_found_or_already_accepted \<longleftrightarrow>
         (\<exists>u p d. authenticate s h = Inr u \<and> profile_of s (au_id u) = Inr p
            \<and> driver_profile_of s (au_id u) = Inr d)
         \<and> \<not> (\<exists>r\<in>set (rides s). ride_id r = rid \<and> status r = Pending)))
   \<and> (accept_ride e s h rid = (s1, Inr ()) \<longrightarrow>
        (\<forall>e2 h2. (\<exists>err. accept_ride e2 s1 h2 rid = (s1, Inl err))
           \<and> ((\<exists>u p d. authenticate s1 h2 = Inr u \<and> profile_of s1 (au_id u) = Inr p
                  \<and> driver_profile_of s1 (au_id u) = Inr d)
                \<longrightarrow> accept_ride e2 s1 h2 rid = (s1, Inl Ride_not_found_or_already_accepted))))"
proof (intro conjI impI allI)
  assume pk: "distinct (map ride_id (rides s))"
  show "snd (accept_ride e s h rid) = Inl Ride_not_found_or_already_accepted \<longleftrightarrow>
         (\<exists>u p d. authenticate s h = Inr u \<and> profile_of s (au_id u) = Inr p
            \<and> driver_profile_of s (au_id u) = Inr d)
         \<and> \<not> (\<exists>r\<in>set (rides s). ride_id r = rid \<and> status r = Pending)"
    unfolding accept_ride_unavailable_iff pending_ride_missing_iff[OF pk] ..
next
  fix e2 h2
  assume first: "accept_ride e s h rid = (s1, Inr ())"
  have gone: "filter (\<lambda>r. ride_id r = rid \<and> status r = Pending) (rides s1) = []"
    using accept_ride_leaves_no_pending(1)[OF first] by (auto simp: filter_empty_conv)
  then have miss: "pending_ride s1 rid = Inl No_single_row" by simp
  show "\<exists>err. accept_ride e2 s1 h2 rid = (s1, Inl err)"
    by (simp add: accept_ride_def miss split: sum.splits)
  assume "\<exists>u p d. authenticate s1 h2 = Inr u \<and> profile_of s1 (au_id u) = Inr p
            \<and> driver_profile_of s1 (au_id u) = Inr d"
  then show "accept_ride e2 s1 h2 rid = (s1, Inl Ride_not_found_or_already_accepted)"
    using miss by (auto simp: accept_ride_no_ride)
qed

theorem accept_ride_unavailable_witness:
  "distinct (map ride_id (rides demo_store))
   \<and> snd (accept_ride demo_env demo_store (Some ''Bearer tok-2'') 10) = Inr ()
   \<and> snd (accept_ride demo_env (fst (accept_ride demo_env demo_store (Some ''Bearer tok-2'') 10))
            (Some ''Bearer tok-3'') 10) = Inl Ride_not_found_or_already_accepted
   \<and> snd (accept_ride demo_env demo_store (Some ''Bearer tok-3'') 11)
       = Inl Ride_not_found_or_already_accepted"
proof -
  let ?s1 = "fst (accept_ride demo_env demo_store (Some ''Bearer tok-2'') 10)"
  have pk: "distinct (map ride_id (rides demo_store))"
    by (simp add: demo_store_def)
  have ok: "snd (accept_ride demo_env demo_store (Some ''Bearer tok-2'') 10) = Inr ()"
    by code_simp
  then have first: "accept_ride demo_env demo_store (Some ''Bearer tok-2'') 10 = (?s1, Inr ())"
    by (simp add: prod_eq_iff)
  have c1: "authenticate ?s1 (Some ''Bearer tok-3'') = Inr \<lparr>au_id = 3, email = None\<rparr>"
    by code_simp
  have c2: "profile_of ?s1 3 = Inr \<lparr>p_user_id = 3, full_name = None, phone = None, user_type = Rider\<rparr>"
    by code_simp
  have c3: "driver_profile_of ?s1 3 = Inr \<lparr>dp_user_id = 3, dp_vehicle_type = Bike,
      vehicle_number = ''KA03C3'', license_number = None, is_available = True\<rparr>"
    by code_simp
  have caller: "\<exists>u p d. authenticate ?s1 (Some ''Bearer tok-3'') = Inr u \<and> profile_of ?s1 (au_id u) = Inr p
            \<and> driver_profile_of ?s1 (au_id u) = Inr d"
    using c1 c2 c3 by simp
  have d1: "authenticate demo_store (Some ''Bearer tok-3'') = Inr \<lparr>au_id = 3, email = None\<rparr>"
    by code_simp
  have d2: "profile_of demo_store 3 = Inr \<lparr>p_user_id = 3, full_name = None, phone = None, user_type = Rider\<rparr>"
    by code_simp
  have d3: "driver_profile_of demo_store 3 = Inr \<lparr>dp_user_id = 3, dp_vehicle_type = Bike,
      vehicle_number = ''KA03C3'', license_number = None, is_available = True\<rparr>"
    by code_simp
  have caller0: "\<exists>u p d. authenticate demo_store (Some ''Bearer tok-3'') = Inr u \<and> profile_of demo_store (au_id u) = Inr p
            \<and> driver_profile_of demo_store (au_id u) = Inr d"
    using d1 d2 d3 by simp
  have none11: "\<not> (\<exists>r\<in>set (rides demo_store). ride_id r = 11 \<and> status r = Pending)"
    by (simp add: demo_store_def demo_ride_def)
  note second = accept_ride_unavailable[of demo_store demo_env "Some ''Bearer tok-2''" 10 ?s1]
  note other = accept_ride_unavailable[of demo_store demo_env "Some ''Bearer tok-3''" 11 ?s1]
  have "accept_ride demo_env ?s1 (Some ''Bearer tok-3'') 10 = (?s1, Inl Ride_not_found_or_already_accepted)"
    using second first caller by blast
  moreover have "snd (accept_ride demo_env demo_store (Some ''Bearer tok-3'') 11) = Inl Ride_not_found_or_already_accepted"
    using other pk caller0 none11 by blast
  ultimately show ?thesis using pk ok by simp
qed

text \<open>
  C7. When accept-ride succeeds for caller D on ride R, the row of R now carries
  \<^verbatim>\<open>driver_id\<close> = D and status accepted (as does every row with that id), and exactly two
  rows were added to \<^verbatim>\<open>ride_notifications\<close>, both for R: one addressed to R's customer and
  one addressed to D.
\<close>

theorem accept_ride_success:
  assumes "accept_ride e s h rid = (s', Inr ())"
  shows "\<exists>u r n1 n2. authenticate s h = Inr u \<and> pending_ride s rid = Inr r
     \<and> r\<lparr>driver_id := Some (au_id u), status := Accepted, updated_at := now e\<rparr> \<in> set (rides s')
     \<and> (\<forall>x\<in>set (rides s'). ride_id x = rid \<longrightarrow> driver_id x = Some (au_id u) \<and> status x = Accepted)
     \<and> ride_notifications s' = ride_notifications s @ [n1, n2]
     \<and> n_ride_id n1 = rid \<and> n_user_id n1 = customer_id r
     \<and> n_ride_id n2 = rid \<and> n_user_id n2 = au_id u"
proof -
  from accept_ride_success_store[OF assms] obtain u p r n1 n2 where
    auth: "authenticate s h = Inr u" and ride: "pending_ride s rid = Inr r"
    and s': "s' = s\<lparr>rides := map (\<lambda>x. if ride_id x = rid
                               then x\<lparr>driver_id := Some (au_id u), status := Accepted, updated_at := now e\<rparr>
                               else x) (rides s),
              ride_notifications := ride_notifications s @ [n1, n2]\<rparr>"
    and n: "n_ride_id n1 = rid" "n_user_id n1 = customer_id r" "n_ride_id n2 = rid" "n_user_id n2 = au_id u"
    by blast
  have rin: "r \<in> set (rides s)" "ride_id r = rid"
    using single_row_mem[OF ride] by auto
  have rs: "rides s' = map (\<lambda>x. if ride_id x = rid
                               then x\<lparr>driver_id := Some (au_id u), status := Accepted, updated_at := now e\<rparr>
                               else x) (rides s)"
    and ns: "ride_notifications s' = ride_notifications s @ [n1, n2]"
    by (simp_all add: s')
  have a: "r\<lparr>driver_id := Some (au_id u), status := Accepted, updated_at := now e\<rparr> \<in> set (rides s')"
    unfolding rs by (rule rides_after_accept(1)[OF rin])
  have b: "\<forall>x\<in>set (rides s'). ride_id x = rid \<longrightarrow> driver_id x = Some (au_id u) \<and> status x = Accepted"
    unfolding rs by (rule rides_after_accept(2)[OF rin])
  show ?thesis
    apply (rule exI[of _ u], rule exI[of _ r], rule exI[of _ n1], rule exI[of _ n2])
    using auth ride a b ns n by simp
qed

theorem accept_ride_success_witness:
  "\<exists>s'. accept_ride demo_env demo_store (Some ''Bearer tok-2'') 10 = (s', Inr ())
     \<and> demo_ride\<lparr>driver_id := Some 2, status := Accepted, updated_at := 1000\<rparr> \<in> set (rides s')
     \<and> map n_user_id (ride_notifications s') = [1, 2]"
proof -
  let ?s1 = "fst (accept_ride demo_env demo_store (Some ''Bearer tok-2'') 10)"
  have ok: "snd (accept_ride demo_env demo_store (Some ''Bearer tok-2'') 10) = Inr ()"
    by code_simp
  then have first: "accept_ride demo_env demo_store (Some ''Bearer tok-2'') 10 = (?s1, Inr ())"
    by (simp add: prod_eq_iff)
  have a: "authenticate demo_store (Some ''Bearer tok-2'') = Inr \<lparr>au_id = 2, email = Some ''ravi@example.org''\<rparr>"
    by code_simp
  have r: "pending_ride demo_store 10 = Inr demo_ride"
    by (simp add: demo_store_def demo_ride_def)
  have nn: "ride_notifications demo_store = []" "now demo_env = 1000" "customer_id demo_ride = 1"
    by (simp_all add: demo_store_def demo_env_def demo_ride_def)
  from accept_ride_success[OF first]
  obtain u r' n1 n2 where
    u: "authenticate demo_store (Some ''Bearer tok-2'') = Inr u"
    and r': "pending_ride demo_store 10 = Inr r'"
    and m: "r'\<lparr>driver_id := Some (au_id u), status := Accepted, updated_at := now demo_env\<rparr> \<in> set (rides ?s1)"
    and ns: "ride_notifications ?s1 = ride_notifications demo_store @ [n1, n2]"
       "n_user_id n1 = customer_id r'" "n_user_id n2 = au_id u"
    by blast
  have "u = \<lparr>au_id = 2, email = Some ''ravi@example.org''\<rparr>" "r' = demo_ride"
    using u a r r' by simp_all
  then show ?thesis
    using first m ns nn by (intro exI[of _ ?s1]) simp
qed

text \<open>
  C9. accept-ride succeeds exactly when the caller resolves to an identity with one
  profile row and one driver-profile row, the ride is pending, and the lookups of the
  ride's customer (profile row, account) succeed. Nothing in this condition mentions the
  caller's vehicle type, the caller's \<^verbatim>\<open>user_type\<close>, or whether the caller is the ride's
  customer: in the example state the third account (a bike) accepts the car ride of
  another user, and the first account, a customer with a driver profile (an auto), accepts
  the ride it requested itself.
\<close>

theorem accept_ride_preconditions:
  "(snd (accept_ride e s h rid) = Inr () \<longleftrightarrow>
     (\<exists>u p d r c a. authenticate s h = Inr u \<and> profile_of s (au_id u) = Inr p
        \<and> driver_profile_of s (au_id u) = Inr d \<and> pending_ride s rid = Inr r
        \<and> profile_of s (customer_id r) = Inr c \<and> getUserById s (customer_id r) = Some a))
   \<and> (\<exists>u p d r. authenticate demo_store (Some ''Bearer tok-3'') = Inr u
         \<and> profile_of demo_store (au_id u) = Inr p
         \<and> driver_profile_of demo_store (au_id u) = Inr d \<and> pending_ride demo_store 10 = Inr r
         \<and> dp_vehicle_type d \<noteq> vehicle_type r \<and> customer_id r \<noteq> au_id u
         \<and> snd (accept_ride demo_env demo_store (Some ''Bearer tok-3'') 10) = Inr ())
   \<and> (\<exists>u p d r. authenticate demo_store (Some ''Bearer tok-1'') = Inr u
         \<and> profile_of demo_store (au_id u) = Inr p
         \<and> driver_profile_of demo_store (au_id u) = Inr d \<and> pending_ride demo_store 10 = Inr r
         \<and> customer_id r = au_id u \<and> user_type p = Customer
         \<and> snd (accept_ride demo_env demo_store (Some ''Bearer tok-1'') 10) = Inr ())"
proof (intro conjI)
  show "snd (accept_ride e s h rid) = Inr () \<longleftrightarrow>
     (\<exists>u p d r c a. authenticate s h = Inr u \<and> profile_of s (au_id u) = Inr p
        \<and> driver_profile_of s (au_id u) = Inr d \<and> pending_ride s rid = Inr r
        \<and> profile_of s (customer_id r) = Inr c \<and> getUserById s (customer_id r) = Some a)"
    by (rule accept_ride_success_iff)
next
  have "authenticate demo_store (Some ''Bearer tok-3'') = Inr \<lparr>au_id = 3, email = None\<rparr>"
    by code_simp
  moreover have "profile_of demo_store 3 = Inr \<lparr>p_user_id = 3, full_name = None, phone = None, user_type = Rider\<rparr>"
    by code_simp
  moreover have "driver_profile_of demo_store 3 = Inr \<lparr>dp_user_id = 3, dp_vehicle_type = Bike,
      vehicle_number = ''KA03C3'', license_number = None, is_available = True\<rparr>"
    by code_simp
  moreover have "pending_ride demo_store 10 = Inr demo_ride"
    by (simp add: demo_store_def demo_ride_def)
  moreover have "vehicle_type demo_ride = Car" "customer_id demo_ride = 1"
    by (simp_all add: demo_ride_def)
  moreover have "snd (accept_ride demo_env demo_store (Some ''Bearer tok-3'') 10) = Inr ()"
    by code_simp
  ultimately show "\<exists>u p d r. authenticate demo_store (Some ''Bearer tok-3'') = Inr u
         \<and> profile_of demo_store (au_id u) = Inr p
         \<and> driver_profile_of demo_store (au_id u) = Inr d \<and> pending_ride demo_store 10 = Inr r
         \<and> dp_vehicle_type d \<noteq> vehicle_type r \<and> customer_id r \<noteq> au_id u
         \<and> snd (accept_ride demo_env demo_store (Some ''Bearer tok-3'') 10) = Inr ()"
    by simp
next
  have "authenticate demo_store (Some ''Bearer tok-1'') = Inr \<lparr>au_id = 1, email = Some ''asha@example.org''\<rparr>"
    by code_simp
  moreover have "profile_of demo_store 1 = Inr \<lparr>p_user_id = 1, full_name = Some ''Asha'', phone = None, user_type = Customer\<rparr>"
    by code_simp
  moreover have "driver_profile_of demo_store 1 = Inr \<lparr>dp_user_id = 1, dp_vehicle_type = Auto,
      vehicle_number = ''KA01A1'', license_number = None, is_available = True\<rparr>"
    by code_simp
  moreover have "pending_ride demo_store 10 = Inr demo_ride"
    by (simp add: demo_store_def demo_ride_def)
  moreover have "customer_id demo_ride = 1"
    by (simp_all add: demo_ride_def)
  moreover have "snd (accept_ride demo_env demo_store (Some ''Bearer tok-1'') 10) = Inr ()"
    by code_simp
  ultimately show "\<exists>u p d r. authenticate demo_store (Some ''Bearer tok-1'') = Inr u
         \<and> profile_of demo_store (au_id u) = Inr p
         \<and> driver_profile_of demo_store (au_id u) = Inr d \<and> pending_ride demo_store 10 = Inr r
         \<and> customer_id r = au_id u \<and> user_type p = Customer
         \<and> snd (accept_ride demo_env demo_store (Some ''Bearer tok-1'') 10) = Inr ()"
    by simp
qed

theorem accept_ride_preconditions_witness:
  "snd (accept_ride demo_env demo_store (Some ''Bearer tok-3'') 10) = Inr ()
   \<and> snd (accept_ride demo_env demo_store (Some ''Bearer tok-3'') 11) \<noteq> Inr ()"
proof -
  have "\<not> (\<exists>r. pending_ride demo_store 11 = Inr r)"
    by (simp add: demo_store_def demo_ride_def)
  then have "snd (accept_ride demo_env demo_store (Some ''Bearer tok-3'') 11) \<noteq> Inr ()"
    using accept_ride_preconditions[of demo_env demo_store "Some ''Bearer tok-3''" 11] by blast
  moreover have "snd (accept_ride demo_env demo_store (Some ''Bearer tok-3'') 10) = Inr ()"
    using accept_ride_preconditions[of demo_env demo_store "Some ''Bearer tok-3''" 10] by blast
  ultimately show ?thesis by simp
qed

text \<open>
  Where an error of accept-ride leaves the store: every error thrown before the update
  leaves it untouched; the two errors of the customer lookups, which come after the
  update, leave the ride written.
\<close>

lemma accept_ride_error_store:
  assumes "accept_ride e s h rid = (s', Inl err)"
  shows "s' = s
     \<or> ((err = Store_error No_single_row \<or> err = Customer_auth_details_not_found)
        \<and> (\<exists>u. authenticate s h = Inr u
             \<and> s' = s\<lparr>rides := map (\<lambda>x. if ride_id x = rid
                                        then x\<lparr>driver_id := Some (au_id u), status := Accepted,
                                               updated_at := now e\<rparr>
                                        else x) (rides s)\<rparr>))"
proof (cases "authenticate s h")
  case (Inl a)
  then show ?thesis using assms by (simp add: accept_ride_no_caller)
next
  case auth: (Inr u)
  show ?thesis
  proof (cases "profile_of s (au_id u)")
    case (Inl x)
    then show ?thesis using assms auth by (simp add: accept_ride_no_profile)
  next
    case prof: (Inr p)
    show ?thesis
    proof (cases "driver_profile_of s (au_id u)")
      case (Inl x)
      then show ?thesis using assms auth prof by (simp add: accept_ride_no_driver_profile)
    next
      case drv: (Inr d)
      show ?thesis
      proof (cases "pending_ride s rid")
        case (Inl x)
        then show ?thesis using assms auth prof drv by (simp add: accept_ride_no_ride)
      next
        case ride: (Inr r)
        show ?thesis
          using assms auth
          by (auto simp add: accept_ride_found[OF auth prof drv ride] Let_def single_row_Inl_iff
              split: sum.splits option.splits)
      qed
    qed
  qed
qed

text \<open>
  C5, evaluated where the code departs from it. The customer of the pending ride has a
  profile row and no account in \<^verbatim>\<open>auth.users\<close>. The second account accepts: the handler
  writes \<^verbatim>\<open>driver_id\<close> and status accepted, then \<^verbatim>\<open>getUserById\<close> finds nobody and the
  handler throws \<^verbatim>\<open>Customer auth details not found\<close>. The caller gets the error, the ride
  stays accepted, no notification is written.
\<close>

theorem accept_ride_error_after_update:
  "rides orphan_store = [demo_ride] \<and> status demo_ride = Pending \<and> driver_id demo_ride = None
   \<and> snd (accept_ride demo_env orphan_store (Some ''Bearer tok-2'') 10) = Inl Customer_auth_details_not_found
   \<and> rides (fst (accept_ride demo_env orphan_store (Some ''Bearer tok-2'') 10))
       = [demo_ride\<lparr>driver_id := Some 2, status := Accepted, updated_at := 1000\<rparr>]
   \<and> ride_notifications (fst (accept_ride demo_env orphan_store (Some ''Bearer tok-2'') 10)) = []"
  by code_simp

section \<open>Properties of create-ride\<close>

lemma numeric_round_of_int: "numeric_round s (of_int n) = of_int n"
proof -
  have pos: "(10::real) ^ s \<noteq> 0" by simp
  have a: "\<lfloor>of_int k * (10::real) ^ s + 1 / 2\<rfloor> = k * 10 ^ s" for k :: int
  proof -
    have "of_int k * (10::real) ^ s = of_int (k * 10 ^ s)" by simp
    then have "\<lfloor>of_int k * (10::real) ^ s + 1 / 2\<rfloor> = \<lfloor>of_int (k * 10 ^ s) + (1 / 2 :: real)\<rfloor>"
      by simp
    also have "\<dots> = k * 10 ^ s"
      by (rule floor_unique) simp_all
    finally show ?thesis .
  qed
  show ?thesis
  proof (cases "0 \<le> n")
    case True
    then show ?thesis using a[of n] by (simp add: numeric_round_def)
  next
    case False
    have "- real_of_int n * 10 ^ s = of_int (- n) * 10 ^ s" by simp
    then have "\<lfloor>- real_of_int n * 10 ^ s + 1 / 2\<rfloor> = (- n) * 10 ^ s"
      using a[of "- n"] by simp
    then show ?thesis using False by (simp add: numeric_round_def)
  qed
qed

lemma estimatedFare_bounds:
  assumes "0 \<le> r" and "r < 1"
  shows "30 \<le> estimatedFare vt r" and "estimatedFare vt r \<le> 180"
proof -
  have b: "30 \<le> baseFare vt" "baseFare vt \<le> 80" by (simp_all add: baseFare_def)
  from estimatedFare_between[OF assms, of vt] b
  show "30 \<le> estimatedFare vt r" and "estimatedFare vt r \<le> 180"
    by simp_all
qed

lemma cast_decimal_estimatedFare:
  assumes "0 \<le> r" and "r < 1"
  shows "cast_decimal 10 2 col (Some (of_int (estimatedFare vt r))) = Inr (Some (of_int (estimatedFare vt r)))"
proof -
  have "\<bar>real_of_int (estimatedFare vt r)\<bar> < 10 ^ 8"
    using estimatedFare_bounds[OF assms, of vt] by simp
  then show ?thesis
    by (simp add: cast_decimal_def numeric_round_of_int)
qed

lemma cast_decimal_of_int_Inr:
  "cast_decimal p s col (Some (of_int n)) = Inr v \<Longrightarrow> v = Some (of_int n)"
  by (auto simp: cast_decimal_def numeric_round_of_int split: if_splits)

lemma new_ride_row_Inr:
  assumes "new_ride_row e s cust f t pk vt note (of_int fare) = Inr r"
  shows "\<exists>f' t' ptxt ts vtxt v. f = Some f' \<and> t = Some t' \<and> pk = Some ptxt
     \<and> timestamptz_in e ptxt = Some ts \<and> vt = Some vtxt \<and> vehicle_type_in vtxt = Some v
     \<and> cust \<in> set (map p_user_id (profiles s))
     \<and> r = \<lparr>ride_id = gen_random_uuid (map ride_id (rides s)),
             customer_id = cust, driver_id = None,
             from_location = f', to_location = t', pickup_time = ts, vehicle_type = v,
             distance_km = None, estimated_fare = Some (of_int fare), final_fare = None,
             status = Pending, ride_notes = note,
             created_at = now e, updated_at = now e\<rparr>"
  using assms
  by (auto simp: new_ride_row_def cast_timestamptz_def cast_vehicle_type_def not_null_def
      dest!: cast_decimal_of_int_Inr
      split: sum.splits option.splits if_splits)

lemma new_ride_row_refuses:
  assumes bad: "f = None \<or> t = None \<or> pk = None \<or> vt \<notin> {Some ''auto'', Some ''car'', Some ''bike''}"
  shows "\<exists>err. new_ride_row e s cust f t pk vt note fare = Inl err"
proof (cases "new_ride_row e s cust f t pk vt note fare")
  case (Inl err)
  then show ?thesis by blast
next
  case (Inr r)
  then have "f \<noteq> None \<and> t \<noteq> None \<and> pk \<noteq> None \<and> (\<exists>vtxt v. vt = Some vtxt \<and> vehicle_type_in vtxt = Some v)"
    by (auto simp: new_ride_row_def cast_timestamptz_def cast_vehicle_type_def not_null_def
      split: sum.splits option.splits if_splits)
  then have False using bad
    by (auto simp: vehicle_type_in_def split: if_splits)
  then show ?thesis ..
qed

lemma new_ride_row_refuses_kind:
  assumes bad: "f = None \<or> t = None \<or> pk = None \<or> vt \<notin> {Some ''auto'', Some ''car'', Some ''bike''}"
    and r: "0 \<le> r" "r < 1"
  shows "\<exists>c. new_ride_row e s cust f t pk vt note (of_int (estimatedFare vt' r)) = Inl (Not_null_violation c)
           \<or> new_ride_row e s cust f t pk vt note (of_int (estimatedFare vt' r)) = Inl (Invalid_text_representation c)"
proof -
  from new_ride_row_refuses[OF bad] obtain err where
    err: "new_ride_row e s cust f t pk vt note (of_int (estimatedFare vt' r)) = Inl err" by blast
  have "(\<exists>c. err = Not_null_violation c) \<or> (\<exists>c. err = Invalid_text_representation c) \<or> err = Foreign_key_violation ''customer_id''"
    using err
    by (auto simp: new_ride_row_def cast_timestamptz_def cast_vehicle_type_def not_null_def
        cast_decimal_estimatedFare[OF r]
      split: sum.splits option.splits if_splits)
  moreover have "err \<noteq> Foreign_key_violation ''customer_id''"
  proof
    assume "err = Foreign_key_violation ''customer_id''"
    then have "f \<noteq> None \<and> t \<noteq> None \<and> pk \<noteq> None \<and> (\<exists>vtxt v. vt = Some vtxt \<and> vehicle_type_in vtxt = Some v)"
      using err
      by (auto simp: new_ride_row_def cast_timestamptz_def cast_vehicle_type_def not_null_def
          cast_decimal_estimatedFare[OF r]
        split: sum.splits option.splits if_splits)
    then show False using bad
      by (auto simp: vehicle_type_in_def split: if_splits)
  qed
  ultimately show ?thesis using err by auto
qed

lemma create_ride_refused:
  assumes "new_ride_row e s (au_id u) (req_from_location req) (req_to_location req)
             (req_pickup_time req) (req_vehicle_type req) (req_notes req)
             (of_int (estimatedFare (req_vehicle_type req) (math_random e))) = Inl err"
    and "authenticate s h = Inr u" and "profile_of s (au_id u) = Inr p"
  shows "create_ride e s h req = (s, Inl (Store_error err))"
  using assms by (simp add: create_ride_def insert_ride_def)

lemma create_ride_no_caller:
  "authenticate s h = Inl err \<Longrightarrow> create_ride e s h req = (s, Inl err)"
  by (simp add: create_ride_def)

lemma create_ride_no_profile:
  "authenticate s h = Inr u \<Longrightarrow> profile_of s (au_id u) = Inl x
    \<Longrightarrow> create_ride e s h req = (s, Inl Customer_profile_not_found)"
  by (simp add: create_ride_def)

lemma create_ride_incomplete:
  assumes bad: "req_from_location req = None \<or> req_to_location req = None \<or> req_pickup_time req = None
                \<or> req_vehicle_type req \<notin> {Some ''auto'', Some ''car'', Some ''bike''}"
  shows "\<exists>err. create_ride e s h req = (s, Inl err)"
    and "authenticate s h = Inr u \<Longrightarrow> profile_of s (au_id u) = Inr p
          \<Longrightarrow> 0 \<le> math_random e \<Longrightarrow> math_random e < 1
          \<Longrightarrow> \<exists>c. create_ride e s h req = (s, Inl (Store_error (Not_null_violation c)))
                 \<or> create_ride e s h req = (s, Inl (Store_error (Invalid_text_representation c)))"
proof -
  show "\<exists>err. create_ride e s h req = (s, Inl err)"
  proof (cases "authenticate s h")
    case (Inl err)
    then show ?thesis by (simp add: create_ride_no_caller)
  next
    case auth: (Inr u)
    show ?thesis
    proof (cases "profile_of s (au_id u)")
      case (Inl x)
      then show ?thesis using auth by (simp add: create_ride_no_profile)
    next
      case (Inr p)
      from new_ride_row_refuses[OF bad] obtain err where
        "new_ride_row e s (au_id u) (req_from_location req) (req_to_location req)
             (req_pickup_time req) (req_vehicle_type req) (req_notes req)
             (of_int (estimatedFare (req_vehicle_type req) (math_random e))) = Inl err"
        by blast
      from create_ride_refused[OF this auth Inr] show ?thesis by blast
    qed
  qed
next
  assume auth: "authenticate s h = Inr u" and prof: "profile_of s (au_id u) = Inr p"
    and r: "0 \<le> math_random e" "math_random e < 1"
  from new_ride_row_refuses_kind[OF bad r]
  obtain c where
    "new_ride_row e s (au_id u) (req_from_location req) (req_to_location req)
             (req_pickup_time req) (req_vehicle_type req) (req_notes req)
             (of_int (estimatedFare (req_vehicle_type req) (math_random e))) = Inl (Not_null_violation c)
     \<or> new_ride_row e s (au_id u) (req_from_location req) (req_to_location req)
             (req_pickup_time req) (req_vehicle_type req) (req_notes req)
             (of_int (estimatedFare (req_vehicle_type req) (math_random e))) = Inl (Invalid_text_representation c)"
    by blast
  then show "\<exists>c. create_ride e s h req = (s, Inl (Store_error (Not_null_violation c)))
                 \<or> create_ride e s h req = (s, Inl (Store_error (Invalid_text_representation c)))"
    using create_ride_refused[OF _ auth prof] by blast
qed

lemma create_ride_success_store:
  assumes "create_ride e s h req = (s', Inr r)"
  shows "\<exists>u p. authenticate s h = Inr u \<and> profile_of s (au_id u) = Inr p
     \<and> new_ride_row e s (au_id u) (req_from_location req) (req_to_location req)
             (req_pickup_time req) (req_vehicle_type req) (req_notes req)
             (of_int (estimatedFare (req_vehicle_type req) (math_random e))) = Inr r
     \<and> s' = s\<lparr>rides := rides s @ [r],
              ride_notifications := ride_notifications s @
                [\<lparr>n_id = gen_random_uuid (map n_id (ride_notifications s)),
                  n_ride_id = ride_id r, n_user_id = au_id u,
                  message = ''Your ride request from '' @ template_value (req_from_location req)
                        @ '' to '' @ template_value (req_to_location req)
                        @ '' has been submitted.'',
                  is_read = False, n_created_at = now e\<rparr>]\<rparr>"
proof (cases "authenticate s h")
  case (Inl err)
  then show ?thesis using assms by (simp add: create_ride_no_caller)
next
  case auth: (Inr u)
  show ?thesis
  proof (cases "profile_of s (au_id u)")
    case (Inl x)
    then show ?thesis using assms auth by (simp add: create_ride_no_profile)
  next
    case prof: (Inr p)
    let ?row = "new_ride_row e s (au_id u) (req_from_location req) (req_to_location req)
             (req_pickup_time req) (req_vehicle_type req) (req_notes req)
             (of_int (estimatedFare (req_vehicle_type req) (math_random e)))"
    show ?thesis
    proof (cases ?row)
      case (Inl err)
      then show ?thesis using assms create_ride_refused[OF Inl auth prof] by simp
    next
      case row: (Inr r')
      have pu: "au_id u \<in> set (map p_user_id (profiles s))"
        using single_row_mem[OF prof] by force
      let ?s1 = "s\<lparr>rides := rides s @ [r']\<rparr>"
      have n: "fst (insert_notification e ?s1 (ride_id r') (au_id u) m) =
          ?s1\<lparr>ride_notifications := ride_notifications s @
                [\<lparr>n_id = gen_random_uuid (map n_id (ride_notifications s)),
                  n_ride_id = ride_id r', n_user_id = au_id u, message = m, is_read = False,
                  n_created_at = now e\<rparr>]\<rparr>" for m
        using pu by (simp add: insert_notification_def)
      define msg where "msg = ''Your ride request from '' @ template_value (req_from_location req)
                        @ '' to '' @ template_value (req_to_location req)
                        @ '' has been submitted.''"
      have c: "create_ride e s h req = (fst (insert_notification e ?s1 (ride_id r') (au_id u) msg), Inr r')"
        using auth prof row by (simp add: create_ride_def insert_ride_def msg_def)
      have eq: "(fst (insert_notification e ?s1 (ride_id r') (au_id u) msg), Inr r' :: error + ride) = (s', Inr r)"
        by (rule trans[OF c[symmetric] assms])
      note both = eq[unfolded prod.inject sum.inject]
      then have rr: "r' = r" ..
      from both have "fst (insert_notification e ?s1 (ride_id r') (au_id u) msg) = s'" ..
      then have "s' = ?s1\<lparr>ride_notifications := ride_notifications s @
                [\<lparr>n_id = gen_random_uuid (map n_id (ride_notifications s)),
                  n_ride_id = ride_id r', n_user_id = au_id u, message = msg, is_read = False,
                  n_created_at = now e\<rparr>]\<rparr>"
        unfolding n by (rule sym)
      with rr show ?thesis using auth prof row by (simp add: msg_def)
    qed
  qed
qed

text \<open>
  C6. A ride returned by a successful create-ride call has status pending and no driver,
  belongs to the caller, carries the fare that the handler computed for the request, is a
  new row at the end of \<^verbatim>\<open>rides\<close> under an id no ride had before, and the call has added
  one row to \<^verbatim>\<open>ride_notifications\<close>, for this ride and addressed to the customer.
\<close>

theorem create_ride_success:
  assumes "create_ride e s h req = (s', Inr r)"
  shows "\<exists>u n. authenticate s h = Inr u \<and> customer_id r = au_id u
     \<and> status r = Pending \<and> driver_id r = None
     \<and> estimated_fare r = Some (of_int (estimatedFare (req_vehicle_type req) (math_random e)))
     \<and> ride_id r \<notin> set (map ride_id (rides s))
     \<and> rides s' = rides s @ [r]
     \<and> ride_notifications s' = ride_notifications s @ [n]
     \<and> n_user_id n = customer_id r \<and> n_ride_id n = ride_id r"
proof -
  from create_ride_success_store[OF assms] obtain u p where
    auth: "authenticate s h = Inr u"
    and row: "new_ride_row e s (au_id u) (req_from_location req) (req_to_location req)
             (req_pickup_time req) (req_vehicle_type req) (req_notes req)
             (of_int (estimatedFare (req_vehicle_type req) (math_random e))) = Inr r"
    and s': "s' = s\<lparr>rides := rides s @ [r],
              ride_notifications := ride_notifications s @
                [\<lparr>n_id = gen_random_uuid (map n_id (ride_notifications s)),
                  n_ride_id = ride_id r, n_user_id = au_id u,
                  message = ''Your ride request from '' @ template_value (req_from_location req)
                        @ '' to '' @ template_value (req_to_location req)
                        @ '' has been submitted.'',
                  is_read = False, n_created_at = now e\<rparr>]\<rparr>"
    by blast
  from new_ride_row_Inr[OF row] have
    r: "customer_id r = au_id u" "status r = Pending" "driver_id r = None"
      "estimated_fare r = Some (of_int (estimatedFare (req_vehicle_type req) (math_random e)))"
      "ride_id r = gen_random_uuid (map ride_id (rides s))"
    by auto
  have fresh: "ride_id r \<notin> set (map ride_id (rides s))"
    unfolding r(5) by (rule gen_random_uuid_fresh)
  show ?thesis
    apply (rule exI[of _ u])
    apply (rule exI[of _ "\<lparr>n_id = gen_random_uuid (map n_id (ride_notifications s)),
                  n_ride_id = ride_id r, n_user_id = au_id u,
                  message = ''Your ride request from '' @ template_value (req_from_location req)
                        @ '' to '' @ template_value (req_to_location req)
                        @ '' has been submitted.'',
                  is_read = False, n_created_at = now e\<rparr>"])
    using auth r(1-4) fresh by (simp add: s')
qed

theorem create_ride_success_witness:
  "\<exists>s' r. create_ride demo_env demo_store (Some ''Bearer tok-1'') demo_request = (s', Inr r)
     \<and> status r = Pending \<and> driver_id r = None \<and> estimated_fare r = Some 130
     \<and> rides s' = [demo_ride, r] \<and> map n_user_id (ride_notifications s') = [1]"
proof -
  define s1 where "s1 = fst (create_ride demo_env demo_store (Some ''Bearer tok-1'') demo_request)"
  define r1 where "r1 = \<lparr>ride_id = 11, customer_id = 1, driver_id = None,
        from_location = ''City Center'', to_location = ''Airport'',
        pickup_time = 900, vehicle_type = Car, distance_km = None,
        estimated_fare = Some 130, final_fare = None, status = Pending,
        ride_notes = None, created_at = 1000, updated_at = 1000\<rparr>"
  have "snd (create_ride demo_env demo_store (Some ''Bearer tok-1'') demo_request) = Inr r1"
    unfolding r1_def by code_simp
  then have first: "create_ride demo_env demo_store (Some ''Bearer tok-1'') demo_request = (s1, Inr r1)"
    by (simp add: prod_eq_iff s1_def)
  have st: "rides demo_store = [demo_ride]" "ride_notifications demo_store = []"
    by (simp_all add: demo_store_def)
  from create_ride_success[OF first] obtain u n where
    "rides s1 = rides demo_store @ [r1]"
    "ride_notifications s1 = ride_notifications demo_store @ [n]"
    "n_user_id n = customer_id r1"
    by blast
  then have tabs: "rides s1 = [demo_ride, r1]" "map n_user_id (ride_notifications s1) = [1]"
    by (simp_all add: st r1_def)
  have row: "status r1 = Pending" "driver_id r1 = None" "estimated_fare r1 = Some 130"
    by (simp_all add: r1_def)
  show ?thesis
    by (rule exI[of _ s1], rule exI[of _ r1]) (simp add: first tabs row)
qed

text \<open>
  C3. A create-ride request whose \<^verbatim>\<open>vehicle_type\<close> is not one of auto, car, bike (or is
  absent) is answered with an error and changes nothing in the store: no ride is created,
  so no fare derived from a default base is stored or returned. For a caller who passes
  the identity and profile checks (and \<^verbatim>\<open>Math.random()\<close> in [0,1)) the error is the store
  refusing the values of the row: a text that is no value of its column type, or NULL in
  a \<^verbatim>\<open>NOT NULL\<close> column. The refusal is the store's: the expression for \<open>baseFare\<close> itself
  falls through to 80 for such a value, and the result is dropped with the failed insert.
\<close>

theorem create_ride_rejects_unknown_vehicle_type:
  assumes "req_vehicle_type req \<notin> {Some ''auto'', Some ''car'', Some ''bike''}"
  shows "(\<exists>err. create_ride e s h req = (s, Inl err))
     \<and> (\<forall>u p. authenticate s h = Inr u \<and> profile_of s (au_id u) = Inr p
            \<and> 0 \<le> math_random e \<and> math_random e < 1
          \<longrightarrow> (\<exists>c. create_ride e s h req = (s, Inl (Store_error (Not_null_violation c)))
                 \<or> create_ride e s h req = (s, Inl (Store_error (Invalid_text_representation c)))))"
proof -
  from assms have "req_from_location req = None \<or> req_to_location req = None \<or> req_pickup_time req = None
                \<or> req_vehicle_type req \<notin> {Some ''auto'', Some ''car'', Some ''bike''}"
    by simp
  from create_ride_incomplete[OF this] show ?thesis by blast
qed

theorem create_ride_rejects_unknown_vehicle_type_witness:
  "create_ride demo_env demo_store (Some ''Bearer tok-1'') (demo_request\<lparr>req_vehicle_type := Some ''truck''\<rparr>)
     = (demo_store, Inl (Store_error (Invalid_text_representation ''vehicle_type'')))"
proof -
  let ?req = "demo_request\<lparr>req_vehicle_type := Some ''truck''\<rparr>"
  have bad: "req_vehicle_type ?req \<notin> {Some ''auto'', Some ''car'', Some ''bike''}"
    by simp
  have "snd (create_ride demo_env demo_store (Some ''Bearer tok-1'') ?req)
          = Inl (Store_error (Invalid_text_representation ''vehicle_type''))"
    by code_simp
  with create_ride_rejects_unknown_vehicle_type[OF bad, of demo_env demo_store "Some ''Bearer tok-1''"]
  show ?thesis by auto
qed

text \<open>
  C8. A create-ride request in which \<^verbatim>\<open>from_location\<close>, \<^verbatim>\<open>to_location\<close>,
  \<^verbatim>\<open>pickup_time\<close> or \<^verbatim>\<open>vehicle_type\<close> is missing is answered with an error and changes
  nothing in the store, so no ride row is created. For a caller who passes the identity and
  profile checks (and \<^verbatim>\<open>Math.random()\<close> in [0,1)) the error is the store refusing the
  values of the row (NULL in a \<^verbatim>\<open>NOT NULL\<close> column, or a text that is no value of its
  column type).
\<close>

theorem create_ride_requires_fields:
  assumes "req_from_location req = None \<or> req_to_location req = None
           \<or> req_pickup_time req = None \<or> req_vehicle_type req = None"
  shows "(\<exists>err. create_ride e s h req = (s, Inl err))
     \<and> (\<forall>u p. authenticate s h = Inr u \<and> profile_of s (au_id u) = Inr p
            \<and> 0 \<le> math_random e \<and> math_random e < 1
          \<longrightarrow> (\<exists>c. create_ride e s h req = (s, Inl (Store_error (Not_null_violation c)))
                 \<or> create_ride e s h req = (s, Inl (Store_error (Invalid_text_representation c)))))"
proof -
  from assms have "req_from_location req = None \<or> req_to_location req = None \<or> req_pickup_time req = None
                \<or> req_vehicle_type req \<notin> {Some ''auto'', Some ''car'', Some ''bike''}"
    by auto
  from create_ride_incomplete[OF this] show ?thesis by blast
qed

theorem create_ride_requires_fields_witness:
  "create_ride demo_env demo_store (Some ''Bearer tok-1'') (demo_request\<lparr>req_from_location := None\<rparr>)
     = (demo_store, Inl (Store_error (Not_null_violation ''from_location'')))
   \<and> create_ride demo_env demo_store (Some ''Bearer tok-1'') (demo_request\<lparr>req_pickup_time := None\<rparr>)
     = (demo_store, Inl (Store_error (Not_null_violation ''pickup_time'')))"
proof -
  let ?req1 = "demo_request\<lparr>req_from_location := None\<rparr>"
  let ?req2 = "demo_request\<lparr>req_pickup_time := None\<rparr>"
  have "snd (create_ride demo_env demo_store (Some ''Bearer tok-1'') ?req1)
          = Inl (Store_error (Not_null_violation ''from_location''))"
    by code_simp
  moreover have "snd (create_ride demo_env demo_store (Some ''Bearer tok-1'') ?req2)
          = Inl (Store_error (Not_null_violation ''pickup_time''))"
    by code_simp
  ultimately show ?thesis
    using create_ride_requires_fields[of ?req1 demo_env demo_store "Some ''Bearer tok-1''"]
      create_ride_requires_fields[of ?req2 demo_env demo_store "Some ''Bearer tok-1''"]
    by auto
qed

section \<open>Properties of the driver dashboard\<close>






text \<open>
  Completing a ride: with an empty distance or fare field the handler shows its error
  toast and sends nothing to the store; with two texts that read as non-zero numbers
  fitting their columns, one update writes status, \<^verbatim>\<open>distance_km\<close> and \<^verbatim>\<open>final_fare\<close>
  together on the rows that the update policy lets the caller change.
\<close>

lemma handleStatusUpdate_missing_input:
  "distance = [] \<or> fare = []
    \<Longrightarrow> handleStatusUpdate e s uid r distance fare ''completed'' = (s, Inl Please_enter_distance_and_fare)"
  by (auto simp: handleStatusUpdate_def)

lemma handleStatusUpdate_complete:
  assumes "distance \<noteq> []" "fare \<noteq> []"
    and "parseFloat distance = Num d" "d \<noteq> 0" "\<bar>numeric_round 2 d\<bar> < 10 ^ 6"
    and "parseFloat fare = Num f" "f \<noteq> 0" "\<bar>numeric_round 2 f\<bar> < 10 ^ 8"
  shows "handleStatusUpdate e s uid r distance fare ''completed'' =
           (s\<lparr>rides := map (\<lambda>x. if ride_id x = ride_id r \<and> rides_update_policy uid x
                                 then x\<lparr>status := Completed, distance_km := Some (numeric_round 2 d),
                                        final_fare := Some (numeric_round 2 f), updated_at := now e\<rparr>
                                 else x) (rides s)\<rparr>, Inr ())"
  using assms
  by (simp add: handleStatusUpdate_def updateRideStatus_def update_rides_def js_truthy_def
      json_number_def cast_ride_status_def ride_status_in_def cast_decimal_key_def cast_decimal_def
      apply_patch_def)

text \<open>
  C4, evaluated where the code departs from it. The assigned driver completes the started
  ride with the distance field reading \<^verbatim>\<open>0\<close> and the fare field reading \<^verbatim>\<open>150\<close>. Both
  texts are present and numeric, the handler lets them pass and reports success; the
  update carries the status and \<^verbatim>\<open>final_fare\<close> only, since \<^verbatim>\<open>if (distance)\<close> is false for
  the number 0, and \<^verbatim>\<open>distance_km\<close> of the completed ride stays NULL.
\<close>

theorem complete_ride_zero_distance:
  "rides started_store = [demo_ride\<lparr>driver_id := Some 2, status := In_progress\<rparr>]
   \<and> parseFloat ''0'' = Num 0 \<and> parseFloat ''150'' = Num 150
   \<and> snd (handleStatusUpdate demo_env started_store 2
            (demo_ride\<lparr>driver_id := Some 2, status := In_progress\<rparr>) ''0'' ''150'' ''completed'') = Inr ()
   \<and> rides (fst (handleStatusUpdate demo_env started_store 2
            (demo_ride\<lparr>driver_id := Some 2, status := In_progress\<rparr>) ''0'' ''150'' ''completed''))
       = [demo_ride\<lparr>driver_id := Some 2, status := Completed, final_fare := Some 150, updated_at := 1000\<rparr>]
   \<and> distance_km (demo_ride\<lparr>driver_id := Some 2, status := Completed, final_fare := Some 150,
                             updated_at := 1000\<rparr>) = None"
  by code_simp

end
